theory Spec2Isabelle
  imports Main "HOL-Library.AList"
begin

section \<open>Hephaestus: domain and certificate lifecycle\<close>

text \<open>
  A shallow embedding of the service layer of Hephaestus (package \<open>services\<close>:
  \<open>service.go\<close>, \<open>domains.go\<close> and the renewal file, and \<open>clients/client.go\<close>).
  Go functions that return \<open>(value, error)\<close> become functions into a sum or a pair
  with an \<open>error option\<close> (\<open>None\<close> is Go's \<open>nil\<close>); a run-time panic is a separate
  outcome; everything a workflow touches outside its own variables (the database, the
  certificate directory, the calls made to the certificate authority) is a field of an
  explicit state that is passed through.
\<close>

subsection \<open>Errors, panics and results\<close>

text \<open>
  \<open>Msg m\<close> is \<open>errors.New(m)\<close> or an error of a collaborator; \<open>Wrap p e\<close> is
  \<open>fmt.Errorf(p + ": %w", e)\<close>, where the wrapped value may be \<open>nil\<close>.
\<close>

datatype error = Msg string | Wrap string "error option"

datatype panic = IndexOutOfRange | NilPointerDereference | IntegerDivideByZero

datatype 'a result = Return 'a | Panic panic

fun error_text :: "error \<Rightarrow> string" where
  "error_text (Msg m) = m"
| "error_text (Wrap p None) = p @ '': %!w(<nil>)''"
| "error_text (Wrap p (Some e)) = p @ '': '' @ error_text e"

text \<open>\<open>%v\<close> of an \<open>error\<close> value that may be nil.\<close>

definition fmt_v :: "error option \<Rightarrow> string" where
  "fmt_v e = (case e of None \<Rightarrow> ''<nil>'' | Some x \<Rightarrow> error_text x)"

subsection \<open>Provider registry (service.go)\<close>

text \<open>\<open>clients.Client\<close>: the fields that are plain data.\<close>

record Client =
  Name :: string
  URL :: string
  Key :: string

text \<open>
  \<open>Service\<close>: the client registry \<open>s.client\<close> and, of the configuration, the
  certificate storage directory \<open>s.cfg.Certs.StorageDir\<close> (shared with every client).
\<close>

record Service =
  client :: "Client list"
  StorageDir :: string

text \<open>The \<open>for ... range s.client\<close> loop of \<open>SelectClientByName\<close>.\<close>

fun SelectClientByName_loop :: "Client list \<Rightarrow> string \<Rightarrow> error + Client" where
  "SelectClientByName_loop [] name = Inl (Msg ''client not found'')"
| "SelectClientByName_loop (c # cs) name =
     (if Name c = name then Inr c else SelectClientByName_loop cs name)"

text \<open>
  \<open>SelectClientByName\<close>. \<open>Inl e\<close> stands for Go's \<open>(nil, e)\<close> and \<open>Inr c\<close> for
  \<open>(c, nil)\<close>. \<open>s.client[0]\<close> on an empty registry is an index-out-of-range panic.
\<close>

definition SelectClientByName :: "Service \<Rightarrow> string \<Rightarrow> (error + Client) result" where
  "SelectClientByName s name =
     (if name = ''no'' then
        (case client s of [] \<Rightarrow> Panic IndexOutOfRange | c # _ \<Rightarrow> Return (Inr c))
      else Return (SelectClientByName_loop (client s) name))"

subsection \<open>Entities (models.Entity, NewEntity)\<close>

text \<open>
  The dynamic values that the workflows put into the \<open>map[string]any\<close> argument of
  \<open>NewEntity\<close>. \<open>time.Time\<close> is a number of nanoseconds. A value of any other dynamic
  type makes \<open>NewEntity\<close> panic; no caller in the service passes one, and the type
  below has no such value.
\<close>

datatype any = AString string | AInt int | ATime int | ABool bool

record Entity =
  EntityName :: string
  StringParameters :: "string \<rightharpoonup> string"
  IntegerParameters :: "string \<rightharpoonup> int"
  TimeParameters :: "string \<rightharpoonup> int"
  BoolParameters :: "string \<rightharpoonup> bool"

text \<open>The body of the \<open>for k, v := range params\<close> loop: the type switch.\<close>

fun NewEntity_set :: "string \<Rightarrow> any \<Rightarrow> Entity \<Rightarrow> Entity" where
  "NewEntity_set k (AString val) e = e\<lparr>StringParameters := (StringParameters e)(k \<mapsto> val)\<rparr>"
| "NewEntity_set k (AInt val) e = e\<lparr>IntegerParameters := (IntegerParameters e)(k \<mapsto> val)\<rparr>"
| "NewEntity_set k (ATime val) e = e\<lparr>TimeParameters := (TimeParameters e)(k \<mapsto> val)\<rparr>"
| "NewEntity_set k (ABool val) e = e\<lparr>BoolParameters := (BoolParameters e)(k \<mapsto> val)\<rparr>"

fun NewEntity_loop :: "(string \<times> any) list \<Rightarrow> Entity \<Rightarrow> Entity" where
  "NewEntity_loop [] e = e"
| "NewEntity_loop ((k, v) # ps) e = NewEntity_loop ps (NewEntity_set k v e)"

text \<open>
  \<open>NewEntity\<close>. The Go map literal is given as the list of its key/value pairs (keys
  distinct, so the order of iteration does not show in the result).
\<close>

definition NewEntity :: "string \<Rightarrow> (string \<times> any) list \<Rightarrow> Entity" where
  "NewEntity table params =
     NewEntity_loop params
       \<lparr>EntityName = table, StringParameters = Map.empty, IntegerParameters = Map.empty,
        TimeParameters = Map.empty, BoolParameters = Map.empty\<rparr>"

subsection \<open>Go integers\<close>

text \<open>
  Go's \<open>int\<close> is 64 bits wide on the platforms the service runs on: arithmetic wraps
  around, and \<open>/\<close> truncates towards zero and panics on a zero divisor.
\<close>

definition wrap64 :: "int \<Rightarrow> int" where
  "wrap64 x = (x + 2 ^ 63) mod 2 ^ 64 - 2 ^ 63"

definition go_quo :: "int \<Rightarrow> int \<Rightarrow> int" where
  "go_quo a b = wrap64 (if (a < 0) = (b < 0) then \<bar>a\<bar> div \<bar>b\<bar> else - (\<bar>a\<bar> div \<bar>b\<bar>))"

subsection \<open>Requests and transfer objects (models)\<close>

text \<open>
  Field names follow the Go structs; where two structs share a field name the later
  one carries a one-letter prefix. \<open>DomainsDTO\<close> and \<open>GetDomainsResp\<close> are declared in
  a part of package \<open>models\<close> that is not among the sources: their fields are the ones
  the service reads and writes.
\<close>

record GetDomainsReq =
  Page :: int
  PageSize :: int
  gUserID :: string
  gStatus :: string
  gDomainName :: string

record DomainsFilters =
  Limit :: "int option"
  Offset :: "int option"
  fDomainName :: string
  fStatus :: string
  fUserID :: string

record CreateDomainReq =
  CreatedBy :: string
  Domain :: string
  AltDomains :: "string list"
  VerificationMethod :: string
  AutoRenew :: bool
  NginxContainerName :: string
  DNSProvider :: string

record DeleteDomainReq =
  DomainID :: string
  DomainName :: string
  UserID :: string

record DomainDetails =
  Status :: string
  dAutoRenew :: bool
  CertValidTo :: int
  dDNSProvider :: string
  dNginxContainerName :: string

record DomainsDTO =
  ID :: string
  dDomainName :: string
  Sub :: "string list"
  Details :: DomainDetails

record CertificateData =
  cCert :: string
  cKey :: string
  cChain :: string
  ValidFrom :: int
  ValidTo :: int

record CertificatePaths =
  pCert :: string
  pKey :: string
  pChain :: string

record 'd GetDomainsResp =
  TotalPages :: int
  rPage :: int
  rPageSize :: int
  TotalElements :: int
  HasNext :: bool
  HasPrev :: bool
  NextPage :: int
  PrevPage :: int
  Domains :: "'d list"

subsection \<open>The world a workflow runs in\<close>

text \<open>
  A database row is its id together with the entity that holds its table name and its
  column values. A transaction is the list of writes it has buffered. \<open>calls\<close> records
  every call a workflow makes to a collaborator that has an effect outside the process
  (certificate authority, database writes, certificate directory, proxy reload), so that
  "no such call was made" can be stated.
\<close>

type_synonym row = "string \<times> Entity"

datatype tx_write = WInsert string Entity | WUpdate Entity string

datatype Tx = TxHandle

datatype call =
    CallCreateCertificate string string "string list"
  | CallSaveCertificateFiles string
  | CallDeleteCertificateFiles string
  | CallInsertTx Entity
  | CallUpdateTx Entity string
  | CallReload string

record State =
  committed :: "row list"
  pending :: "tx_write list option"
  files :: "string list"
  calls :: "call list"

text \<open>
  What the code cannot decide by itself is given by an environment: the clock, which
  calls to collaborators fail and with what error, what the certificate authority
  answers, which id the database gives a new row, and the two list queries of \<open>GET
  /domains\<close> (their SQL is not among the sources).
\<close>

datatype operation =
    OpBeginTx | OpCommit | OpRollback
  | OpInsertTx Entity | OpUpdateTx Entity string
  | OpIsDomainExists string | OpGetIDByNameTx Entity
  | OpGetListOfSubDomains string | OpGetCertificatesByDomain string
  | OpMkdirAll string | OpWriteFile string | OpRemoveAll string
  | OpReload string

record Env =
  time_Now :: int
  fault :: "operation \<Rightarrow> error option"
  acme :: "string \<Rightarrow> string \<Rightarrow> string list \<Rightarrow> error + CertificateData"
  new_id :: "row list \<Rightarrow> Entity \<Rightarrow> string"
  GetDomainsCount :: "DomainsFilters \<Rightarrow> row list \<Rightarrow> error + int"
  GetDomainsList :: "DomainsFilters \<Rightarrow> row list \<Rightarrow> error + DomainsDTO list"

definition log_call :: "call \<Rightarrow> State \<Rightarrow> State" where
  "log_call c s = s\<lparr>calls := calls s @ [c]\<rparr>"

subsection \<open>Repository\<close>

text \<open>
  Package \<open>repositories\<close> is missing from the sources except for
  \<open>GetListOfSubDomains\<close>; the definitions of this section that are not from the
  sources say so. The spec gives the interface (section 6):
  \<open>beginTransaction\<close>, \<open>insert(tx, Entity) -> id\<close>, \<open>update(tx, Entity, id)\<close>,
  \<open>lookupIdByName(tx, Entity) -> id | ""\<close>, \<open>getCertificateForDomain\<close>,
  \<open>domainExists(name)\<close>, \<open>commit\<close> and \<open>rollback\<close>; a row is soft-deleted when its
  \<open>deleted_at\<close> is set. An update sets the given columns of the row of that table with
  that id. Writes made through a transaction are buffered and reach the committed
  database at commit all together; rollback drops them. A write made with a nil
  transaction handle (as \<open>safeWriteEvent\<close> does) goes to the committed database at once.
\<close>

text \<open>
  Modelled from the spec: the effect of \<open>update(tx, Entity, id)\<close> on one row (the
  update statement of \<open>UpdateTx\<close> is missing): the columns the entity names are set,
  the others stay.
\<close>

definition merge_row :: "Entity \<Rightarrow> Entity \<Rightarrow> Entity" where
  "merge_row old new =
     old\<lparr>StringParameters := StringParameters old ++ StringParameters new,
         IntegerParameters := IntegerParameters old ++ IntegerParameters new,
         TimeParameters := TimeParameters old ++ TimeParameters new,
         BoolParameters := BoolParameters old ++ BoolParameters new\<rparr>"

definition update_row :: "Entity \<Rightarrow> string \<Rightarrow> row \<Rightarrow> row" where
  "update_row e rid r =
     (if fst r = rid \<and> EntityName (snd r) = EntityName e then (fst r, merge_row (snd r) e) else r)"

text \<open>
  Modelled from the spec: the effect of one buffered write, and of a transaction's
  writes in their order, on the committed rows (\<open>commit\<close> is missing).
\<close>

fun apply_write :: "tx_write \<Rightarrow> row list \<Rightarrow> row list" where
  "apply_write (WInsert rid e) db = db @ [(rid, e)]"
| "apply_write (WUpdate e rid) db = map (update_row e rid) db"

definition apply_writes :: "tx_write list \<Rightarrow> row list \<Rightarrow> row list" where
  "apply_writes ws db = fold apply_write ws db"

text \<open>
  Modelled from the spec: the rows a statement sees (the queries are missing): inside
  a transaction, its own buffered writes too.
\<close>

definition visible :: "Tx option \<Rightarrow> State \<Rightarrow> row list" where
  "visible tx s =
     (case tx of None \<Rightarrow> committed s
      | Some _ \<Rightarrow> (case pending s of None \<Rightarrow> committed s
                    | Some ws \<Rightarrow> apply_writes ws (committed s)))"

text \<open>
  Modelled from the spec: \<open>beginTransaction() -> TxHandle\<close> (\<open>BeginTx\<close> is missing).
\<close>

definition BeginTx :: "Env \<Rightarrow> State \<Rightarrow> (error + Tx) \<times> State" where
  "BeginTx env s =
     (case fault env OpBeginTx of
        Some e \<Rightarrow> (Inl e, s)
      | None \<Rightarrow> (Inr TxHandle, s\<lparr>pending := Some []\<rparr>))"

text \<open>
  Modelled from the spec: \<open>commit\<close> of the transaction handle (missing): the buffered
  writes reach the committed rows all together, or none does when the commit fails.
\<close>

definition Commit :: "Env \<Rightarrow> State \<Rightarrow> error option \<times> State" where
  "Commit env s =
     (case pending s of
        None \<Rightarrow> (Some (Msg ''tx is closed''), s)
      | Some ws \<Rightarrow>
          (case fault env OpCommit of
             Some e \<Rightarrow> (Some e, s\<lparr>pending := None\<rparr>)
           | None \<Rightarrow> (None, s\<lparr>committed := apply_writes ws (committed s), pending := None\<rparr>)))"

text \<open>
  Modelled from the spec: \<open>rollback\<close> of the transaction handle (missing): the
  buffered writes are dropped.
\<close>

definition Rollback :: "Env \<Rightarrow> State \<Rightarrow> error option \<times> State" where
  "Rollback env s =
     (case pending s of
        None \<Rightarrow> (Some (Msg ''tx is closed''), s)
      | Some ws \<Rightarrow> (fault env OpRollback, s\<lparr>pending := None\<rparr>))"

text \<open>
  Modelled from the spec: \<open>insert(tx, Entity) -> id\<close> (\<open>InsertTx\<close> is missing). The
  call is logged whether or not it fails.
\<close>

definition InsertTx :: "Env \<Rightarrow> Tx option \<Rightarrow> Entity \<Rightarrow> State \<Rightarrow> (error + string) \<times> State" where
  "InsertTx env tx e s =
     (let s1 = log_call (CallInsertTx e) s in
      case fault env (OpInsertTx e) of
        Some err \<Rightarrow> (Inl err, s1)
      | None \<Rightarrow>
          (case tx of
             None \<Rightarrow>
               (let rid = new_id env (committed s1) e
                in (Inr rid, s1\<lparr>committed := committed s1 @ [(rid, e)]\<rparr>))
           | Some _ \<Rightarrow>
               (case pending s1 of
                  None \<Rightarrow> (Inl (Msg ''tx is closed''), s1)
                | Some ws \<Rightarrow>
                    (let rid = new_id env (apply_writes ws (committed s1)) e
                     in (Inr rid, s1\<lparr>pending := Some (ws @ [WInsert rid e])\<rparr>)))))"

text \<open>
  Modelled from the spec: \<open>update(tx, Entity, id) -> ok\<close> (\<open>UpdateTx\<close> is missing).
\<close>

definition UpdateTx :: "Env \<Rightarrow> Tx option \<Rightarrow> Entity \<Rightarrow> string \<Rightarrow> State \<Rightarrow> error option \<times> State" where
  "UpdateTx env tx e rid s =
     (let s1 = log_call (CallUpdateTx e rid) s in
      case fault env (OpUpdateTx e rid) of
        Some err \<Rightarrow> (Some err, s1)
      | None \<Rightarrow>
          (case tx of
             None \<Rightarrow> (None, s1\<lparr>committed := map (update_row e rid) (committed s1)\<rparr>)
           | Some _ \<Rightarrow>
               (case pending s1 of
                  None \<Rightarrow> (Some (Msg ''tx is closed''), s1)
                | Some ws \<Rightarrow> (None, s1\<lparr>pending := Some (ws @ [WUpdate e rid])\<rparr>))))"

text \<open>
  Modelled from the spec: \<open>domainExists(name) -> bool\<close> (\<open>IsDomainExists\<close> is
  missing): whether a non-deleted domain of that name exists.
\<close>

definition live_domain :: "string \<Rightarrow> row \<Rightarrow> bool" where
  "live_domain name r \<longleftrightarrow>
     EntityName (snd r) = ''domains'' \<and> StringParameters (snd r) ''domain_name'' = Some name
       \<and> TimeParameters (snd r) ''deleted_at'' = None"

definition IsDomainExists :: "Env \<Rightarrow> string \<Rightarrow> State \<Rightarrow> error + bool" where
  "IsDomainExists env name s =
     (case fault env (OpIsDomainExists name) of
        Some e \<Rightarrow> Inl e
      | None \<Rightarrow> Inr (list_ex (live_domain name) (committed s)))"

text \<open>
  Modelled from the spec: \<open>lookupIdByName(tx, Entity) -> id | ""\<close> (\<open>GetIDByNameTx\<close>
  is missing): the first live row of the entity's table whose \<open>domain_name\<close> is
  the entity's; the empty string when there is none.
\<close>

definition GetIDByNameTx :: "Env \<Rightarrow> Tx option \<Rightarrow> Entity \<Rightarrow> State \<Rightarrow> error + string" where
  "GetIDByNameTx env tx e s =
     (case fault env (OpGetIDByNameTx e) of
        Some err \<Rightarrow> Inl err
      | None \<Rightarrow>
          Inr (case find (\<lambda>r. EntityName (snd r) = EntityName e
                          \<and> StringParameters (snd r) ''domain_name'' = StringParameters e ''domain_name''
                          \<and> TimeParameters (snd r) ''deleted_at'' = None) (visible tx s) of
                 None \<Rightarrow> []
               | Some r \<Rightarrow> fst r))"

text \<open>
  \<open>GetListOfSubDomains\<close> is in the sources: \<open>SELECT id FROM alternative_domains WHERE
  deleted_at IS NULL AND domain_id = $1\<close>, run on the connection pool, outside any
  transaction. A failing query or scan is a fault of the environment.
\<close>

definition live_subdomain :: "string \<Rightarrow> row \<Rightarrow> bool" where
  "live_subdomain domainID r \<longleftrightarrow>
     EntityName (snd r) = ''alternative_domains'' \<and> TimeParameters (snd r) ''deleted_at'' = None
       \<and> StringParameters (snd r) ''domain_id'' = Some domainID"

definition GetListOfSubDomains :: "Env \<Rightarrow> string \<Rightarrow> State \<Rightarrow> error + string list" where
  "GetListOfSubDomains env domainID s =
     (case fault env (OpGetListOfSubDomains domainID) of
        Some e \<Rightarrow> Inl e
      | None \<Rightarrow> Inr (map fst (filter (live_subdomain domainID) (committed s))))"

text \<open>
  Modelled from the spec: \<open>getCertificateForDomain(domainId) -> Certificate\<close>
  (\<open>GetCertificatesByDomain\<close> is missing); of the returned struct the service reads the \<open>ID\<close> only,
  which is empty when the domain has no certificate.
\<close>

definition live_certificate :: "string \<Rightarrow> row \<Rightarrow> bool" where
  "live_certificate domainID r \<longleftrightarrow>
     EntityName (snd r) = ''certificates'' \<and> TimeParameters (snd r) ''deleted_at'' = None
       \<and> StringParameters (snd r) ''domain_id'' = Some domainID"

definition GetCertificatesByDomain :: "Env \<Rightarrow> string \<Rightarrow> State \<Rightarrow> error + string" where
  "GetCertificatesByDomain env domainID s =
     (case fault env (OpGetCertificatesByDomain domainID) of
        Some e \<Rightarrow> Inl e
      | None \<Rightarrow>
          Inr (case find (live_certificate domainID) (committed s) of
                 None \<Rightarrow> []
               | Some r \<Rightarrow> fst r))"

subsection \<open>Paths and the certificate directory (path/filepath, os)\<close>

text \<open>
  \<open>filepath.Clean\<close> and \<open>filepath.Join\<close> of the Go library, for slash-separated
  paths: \<open>Clean\<close> drops empty and \<open>.\<close> elements, resolves \<open>..\<close> against the element
  before it, and returns \<open>.\<close> for an empty result; \<open>Join\<close> starts at the first
  non-empty element, joins the rest with slashes and cleans the result; with no
  non-empty element it returns the empty string.
\<close>

fun split_path :: "string \<Rightarrow> string list" where
  "split_path [] = [ [] ]"
| "split_path (c # cs) =
     (if c = CHR ''/'' then [] # split_path cs
      else (case split_path cs of [] \<Rightarrow> [ [c] ] | x # xs \<Rightarrow> (c # x) # xs))"

fun join_sep :: "string list \<Rightarrow> string" where
  "join_sep [] = []"
| "join_sep [x] = x"
| "join_sep (x # y # ys) = x @ ''/'' @ join_sep (y # ys)"

definition Clean_step :: "bool \<Rightarrow> string list \<Rightarrow> string \<Rightarrow> string list" where
  "Clean_step rooted out el =
     (if el = [] \<or> el = ''.'' then out
      else if el = ''..'' then
        (if out \<noteq> [] \<and> last out \<noteq> ''..'' then butlast out
         else if rooted then out
         else out @ [''..''])
      else out @ [el])"

definition filepath_Clean :: "string \<Rightarrow> string" where
  "filepath_Clean path =
     (let rooted = (case path of [] \<Rightarrow> False | c # _ \<Rightarrow> c = CHR ''/'');
          out = foldl (Clean_step rooted) [] (split_path path);
          res = (if rooted then ''/'' else []) @ join_sep out
      in if res = [] then ''.'' else res)"

fun filepath_Join :: "string list \<Rightarrow> string" where
  "filepath_Join [] = []"
| "filepath_Join (e # es) =
     (if e \<noteq> [] then filepath_Clean (join_sep (e # es)) else filepath_Join es)"

text \<open>
  The file system is the list of the paths that exist, files and directories alike.
  \<open>path_inside d p\<close>: \<open>p\<close> is \<open>d\<close> itself or lies below it. \<open>os.RemoveAll\<close> removes
  the path and everything below it; errors of the operating system are faults of the
  environment.
\<close>

definition path_inside :: "string \<Rightarrow> string \<Rightarrow> bool" where
  "path_inside d p \<longleftrightarrow>
     p = d \<or> (let pre = (if d = ''/'' then d else d @ ''/'') in take (length pre) p = pre)"

definition MkdirAll :: "Env \<Rightarrow> string \<Rightarrow> State \<Rightarrow> error option \<times> State" where
  "MkdirAll env p s =
     (case fault env (OpMkdirAll p) of
        Some e \<Rightarrow> (Some e, s)
      | None \<Rightarrow> (None, s\<lparr>files := List.insert p (files s)\<rparr>))"

definition WriteFile :: "Env \<Rightarrow> string \<Rightarrow> State \<Rightarrow> error option \<times> State" where
  "WriteFile env p s =
     (case fault env (OpWriteFile p) of
        Some e \<Rightarrow> (Some e, s)
      | None \<Rightarrow> (None, s\<lparr>files := List.insert p (files s)\<rparr>))"

definition RemoveAll :: "Env \<Rightarrow> string \<Rightarrow> State \<Rightarrow> error option \<times> State" where
  "RemoveAll env p s =
     (case fault env (OpRemoveAll p) of
        Some e \<Rightarrow> (Some e, s)
      | None \<Rightarrow> (None, s\<lparr>files := filter (\<lambda>q. \<not> path_inside p q) (files s)\<rparr>))"

subsection \<open>Client methods (clients/client.go)\<close>

text \<open>
  \<open>CreateCertificate\<close>. The receiver is a pointer and may be nil: the first statement,
  \<open>c.log.Debug(...)\<close>, reads a field of the receiver, which panics on nil before
  anything else happens. Otherwise the method talks to the certificate authority, whose
  answer (the certificate data or the wrapped error) is the environment's \<open>acme\<close>.
\<close>

definition CreateCertificate ::
  "Env \<Rightarrow> Client option \<Rightarrow> string \<Rightarrow> string list \<Rightarrow> State
     \<Rightarrow> (error + CertificateData) result \<times> State" where
  "CreateCertificate env c domain san s =
     (case c of
        None \<Rightarrow> (Panic NilPointerDereference, s)
      | Some cl \<Rightarrow>
          (Return (acme env (Name cl) domain san),
           log_call (CallCreateCertificate (Name cl) domain san) s))"

definition SaveCertificateFiles ::
  "Service \<Rightarrow> Env \<Rightarrow> string \<Rightarrow> CertificateData \<Rightarrow> State
     \<Rightarrow> (error + CertificatePaths) \<times> State" where
  "SaveCertificateFiles svc env domain certData s =
     (let s0 = log_call (CallSaveCertificateFiles domain) s;
          baseDir = filepath_Join [StorageDir svc, domain] in
      case MkdirAll env baseDir s0 of
        (Some e, s1) \<Rightarrow> (Inl (Wrap ''failed to create domain dir'' (Some e)), s1)
      | (None, s1) \<Rightarrow>
          (let certPath = filepath_Join [baseDir, ''cert.pem''];
               keyPath = filepath_Join [baseDir, ''privkey.pem''];
               chainPath = filepath_Join [baseDir, ''chain.pem''] in
           case WriteFile env certPath s1 of
             (Some e, s2) \<Rightarrow> (Inl (Wrap ''write cert'' (Some e)), s2)
           | (None, s2) \<Rightarrow>
               (case WriteFile env keyPath s2 of
                  (Some e, s3) \<Rightarrow> (Inl (Wrap ''write key'' (Some e)), s3)
                | (None, s3) \<Rightarrow>
                    (if length (cChain certData) > 0 then
                       (case WriteFile env chainPath s3 of
                          (Some e, s4) \<Rightarrow> (Inl (Wrap ''write chain'' (Some e)), s4)
                        | (None, s4) \<Rightarrow>
                            (Inr \<lparr>pCert = certPath, pKey = keyPath, pChain = chainPath\<rparr>, s4))
                     else
                       (Inr \<lparr>pCert = certPath, pKey = keyPath, pChain = chainPath\<rparr>,
                        snd (WriteFile env chainPath s3))))))"

definition DeleteCertificateFiles ::
  "Service \<Rightarrow> Env \<Rightarrow> string \<Rightarrow> State \<Rightarrow> error option \<times> State" where
  "DeleteCertificateFiles svc env domain s =
     (let s0 = log_call (CallDeleteCertificateFiles domain) s;
          dir = filepath_Join [StorageDir svc, domain] in
      if dir \<notin> set (files s0) then
        (Some (Msg (''certificate not found for domain: '' @ domain)), s0)
      else
        (case RemoveAll env dir s0 of
           (Some e, s1) \<Rightarrow> (Some (Wrap ''failed to remove certificate directory'' (Some e)), s1)
         | (None, s1) \<Rightarrow> (None, s1)))"

subsection \<open>Service helpers (service.go)\<close>

definition writeEvent ::
  "Env \<Rightarrow> Tx option \<Rightarrow> string \<Rightarrow> string \<Rightarrow> string \<Rightarrow> string \<Rightarrow> State \<Rightarrow> error option \<times> State" where
  "writeEvent env tx domainID eventType message createdBy s =
     (let entity = NewEntity ''events''
            [(''domain_id'', AString domainID), (''event_type'', AString eventType),
             (''message'', AString message), (''created_by'', AString createdBy)] in
      case InsertTx env tx entity s of
        (Inl err, s1) \<Rightarrow> (Some (Wrap ''failed to write event'' (Some err)), s1)
      | (Inr _, s1) \<Rightarrow> (None, s1))"

text \<open>\<open>safeWriteEvent\<close>: \<open>writeEvent\<close> with a nil transaction; the error is logged and returned.\<close>

definition safeWriteEvent ::
  "Env \<Rightarrow> string \<Rightarrow> string \<Rightarrow> string \<Rightarrow> string \<Rightarrow> State \<Rightarrow> error option \<times> State" where
  "safeWriteEvent env user domainID eventType details s =
     writeEvent env None domainID eventType details user s"

text \<open>
  \<open>updateMany\<close>: the Go map \<open>updateData\<close> is an association list with distinct keys
  (built with \<open>AList.update\<close>); Go leaves the order of iteration open, here it is the
  order of the list.
\<close>

fun updateMany :: "Env \<Rightarrow> Tx option \<Rightarrow> (string \<times> Entity) list \<Rightarrow> State \<Rightarrow> error option \<times> State" where
  "updateMany env tx [] s = (None, s)"
| "updateMany env tx ((rid, entity) # rest) s =
     (case UpdateTx env tx entity rid s of
        (Some err, s1) \<Rightarrow>
          (Some (Wrap (''failed to update '' @ EntityName entity @ '' id='' @ rid) (Some err)), s1)
      | (None, s1) \<Rightarrow> updateMany env tx rest s1)"

subsection \<open>GetDomains (domains.go)\<close>

text \<open>
  The conversion of a list element, \<open>models.ConvertDomainsDTOToDomains\<close>, is not among
  the sources and is the parameter \<open>conv\<close>.
\<close>

definition GetDomains ::
  "(DomainsDTO \<Rightarrow> 'd) \<Rightarrow> Env \<Rightarrow> GetDomainsReq \<Rightarrow> State \<Rightarrow> (error + 'd GetDomainsResp) result" where
  "GetDomains conv env filters s =
     (let offset = wrap64 (wrap64 (Page filters - 1) * PageSize filters);
          repoFilters = \<lparr>Limit = Some (PageSize filters), Offset = Some offset,
                         fDomainName = gDomainName filters, fStatus = gStatus filters,
                         fUserID = gUserID filters\<rparr> in
      case GetDomainsCount env repoFilters (committed s) of
        Inl err \<Rightarrow> Return (Inl err)
      | Inr totalElements \<Rightarrow>
          if PageSize filters = 0 then Panic IntegerDivideByZero
          else
            (let totalPages = go_quo (wrap64 (wrap64 (totalElements + Page filters) - 1)) (PageSize filters);
                 hasNext = (Page filters < totalPages);
                 hasPrev = (Page filters > 1);
                 nextPage = (if hasNext then wrap64 (Page filters + 1) else 0);
                 prevPage = (if hasPrev then wrap64 (Page filters - 1) else 0) in
             case GetDomainsList env repoFilters (committed s) of
               Inl err \<Rightarrow> Return (Inl err)
             | Inr domains \<Rightarrow>
                 Return (Inr \<lparr>TotalPages = totalPages, rPage = Page filters,
                              rPageSize = PageSize filters, TotalElements = totalElements,
                              HasNext = hasNext, HasPrev = hasPrev, NextPage = nextPage,
                              PrevPage = prevPage, Domains = map conv domains\<rparr>)))"

subsection \<open>CreateDomain (domains.go)\<close>

text \<open>The loop over \<open>req.AltDomains\<close>; the error is the one \<open>CreateDomain\<close> returns.\<close>

fun CreateDomain_alt ::
  "Env \<Rightarrow> Tx \<Rightarrow> string \<Rightarrow> string \<Rightarrow> string list \<Rightarrow> State \<Rightarrow> error option \<times> State" where
  "CreateDomain_alt env tx domainID createdBy [] s = (None, s)"
| "CreateDomain_alt env tx domainID createdBy (sub # subs) s =
     (let subEntity = NewEntity ''alternative_domains''
            [(''domain_id'', AString domainID), (''domain_name'', AString sub),
             (''created_by'', AString createdBy)] in
      case InsertTx env (Some tx) subEntity s of
        (Inl err, s1) \<Rightarrow>
          (Some (Wrap (''insert alt domain '' @ [CHR 0x27] @ sub @ [CHR 0x27]) (Some err)), s1)
      | (Inr _, s1) \<Rightarrow> CreateDomain_alt env tx domainID createdBy subs s1)"

text \<open>
  The part of \<open>CreateDomain\<close> that runs after the \<open>defer\<close> statement, up to its
  \<open>return\<close>: the value is the pair of named results \<open>(domainID, err)\<close>.
\<close>

definition CreateDomain_tx ::
  "Env \<Rightarrow> CreateDomainReq \<Rightarrow> CertificateData \<Rightarrow> CertificatePaths \<Rightarrow> Tx \<Rightarrow> State
     \<Rightarrow> (string \<times> error option) \<times> State" where
  "CreateDomain_tx env req certData certPaths tx s =
     (let domainEntity = NewEntity ''domains''
            [(''domain_name'', AString (Domain req)),
             (''dns_provider'', AString (DNSProvider req)),
             (''status'', AString ''pending''),
             (''verification_method'', AString (VerificationMethod req)),
             (''nginx_container_name'', AString (NginxContainerName req)),
             (''created_by'', AString (CreatedBy req)),
             (''auto_renew'', ABool (AutoRenew req))] in
      case InsertTx env (Some tx) domainEntity s of
        (Inl err, s1) \<Rightarrow> (([], Some (Wrap ''insert domain'' (Some err))), s1)
      | (Inr domainID, s1) \<Rightarrow>
          (case CreateDomain_alt env tx domainID (CreatedBy req) (AltDomains req) s1 of
             (Some err, s2) \<Rightarrow> (([], Some err), s2)
           | (None, s2) \<Rightarrow>
               (let certEntity = NewEntity ''certificates''
                      [(''domain_id'', AString domainID),
                       (''issuer'', AString (''Let'' @ [CHR 0x27] @ ''s Encrypt'')),
                       (''cert_path'', AString (pCert certPaths)),
                       (''key_path'', AString (pKey certPaths)),
                       (''chain_path'', AString (pChain certPaths)),
                       (''created_by'', AString (CreatedBy req)),
                       (''valid_from'', ATime (ValidFrom certData)),
                       (''valid_to'', ATime (ValidTo certData))] in
                case InsertTx env (Some tx) certEntity s2 of
                  (Inl err, s3) \<Rightarrow> (([], Some (Wrap ''insert certificate'' (Some err))), s3)
                | (Inr _, s3) \<Rightarrow>
                    (case updateMany env (Some tx)
                            (AList.update domainID
                               (NewEntity ''domains''
                                  [(''status'', AString ''active''),
                                   (''updated_by'', AString (CreatedBy req))]) []) s3 of
                       (Some err, s4) \<Rightarrow> (([], Some (Wrap ''update domain status'' (Some err))), s4)
                     | (None, s4) \<Rightarrow>
                         (case Commit env s4 of
                            (Some err, s5) \<Rightarrow> (([], Some (Wrap ''commit tx'' (Some err))), s5)
                          | (None, s5) \<Rightarrow>
                              ((domainID, None),
                               snd (safeWriteEvent env (CreatedBy req) domainID ''created''
                                      ''Domain and certificate created successfully'' s5)))))))"

text \<open>The deferred function of \<open>CreateDomain\<close>, run on the named results.\<close>

definition CreateDomain_deferred ::
  "Env \<Rightarrow> CreateDomainReq \<Rightarrow> (string \<times> error option) \<times> State \<Rightarrow> (string \<times> error option) \<times> State" where
  "CreateDomain_deferred env req r =
     (case r of
        ((domainID, None), s) \<Rightarrow> ((domainID, None), s)
      | ((domainID, Some err), s) \<Rightarrow>
          (let s1 = snd (Rollback env s);
               s2 = snd (safeWriteEvent env (CreatedBy req) domainID ''failed''
                           (''Domain creation failed: '' @ error_text err) s1)
           in ((domainID, Some err), s2)))"

definition CreateDomain ::
  "Service \<Rightarrow> Env \<Rightarrow> CreateDomainReq \<Rightarrow> State \<Rightarrow> (string \<times> error option) result \<times> State" where
  "CreateDomain svc env req s =
     (case IsDomainExists env (Domain req) s of
        Inl err \<Rightarrow> (Return ([], Some (Wrap ''check domain exists'' (Some err))), s)
      | Inr exists \<Rightarrow>
          if exists then (Return ([], Some (Msg ''domain already exists'')), s)
          else
            (case SelectClientByName svc (DNSProvider req) of
               Panic p \<Rightarrow> (Panic p, s)
             | Return (Inl err) \<Rightarrow> (Return ([], Some (Wrap ''select DNS client'' (Some err))), s)
             | Return (Inr c) \<Rightarrow>
                 (case CreateCertificate env (Some c) (Domain req) (AltDomains req) s of
                    (Panic p, s1) \<Rightarrow> (Panic p, s1)
                  | (Return (Inl err), s1) \<Rightarrow>
                      (Return ([], Some (Wrap ''certificate creation failed'' (Some err))),
                       snd (safeWriteEvent env (CreatedBy req) [] ''failed''
                              (''Certificate creation failed: '' @ error_text err) s1))
                  | (Return (Inr certData), s1) \<Rightarrow>
                      (case SaveCertificateFiles svc env (Domain req) certData s1 of
                         (Inl err, s2) \<Rightarrow>
                           (Return ([], Some (Wrap ''save certificate files'' (Some err))),
                            snd (safeWriteEvent env (CreatedBy req) [] ''failed''
                                   (''Saving certificate files failed: '' @ error_text err) s2))
                       | (Inr certPaths, s2) \<Rightarrow>
                           (case BeginTx env s2 of
                              (Inl err, s3) \<Rightarrow> (Return ([], Some (Wrap ''begin tx'' (Some err))), s3)
                            | (Inr tx, s3) \<Rightarrow>
                                (case CreateDomain_deferred env req
                                        (CreateDomain_tx env req certData certPaths tx s3) of
                                   (r, s4) \<Rightarrow> (Return r, s4)))))))"

subsection \<open>DeleteDomain (domains.go)\<close>

text \<open>"determine domain ID": the id of the request, or the lookup by name.\<close>

definition DeleteDomain_id :: "Env \<Rightarrow> DeleteDomainReq \<Rightarrow> Tx \<Rightarrow> State \<Rightarrow> error + string" where
  "DeleteDomain_id env filters tx s =
     (if DomainName filters \<noteq> [] then
        (case GetIDByNameTx env (Some tx)
                \<lparr>EntityName = ''domains'',
                 StringParameters = [''domain_name'' \<mapsto> DomainName filters],
                 IntegerParameters = Map.empty, TimeParameters = Map.empty,
                 BoolParameters = Map.empty\<rparr> s of
           Inl err \<Rightarrow> Inl (Wrap ''error while getting domain id'' (Some err))
         | Inr domainID \<Rightarrow>
             if domainID = [] then Inl (Msg (''domain doesn'' @ [CHR 0x27] @ ''t exist''))
             else Inr domainID)
      else Inr (DomainID filters))"

text \<open>The map \<open>updateDomains\<close>: the main domain first, then one entry per subdomain id.\<close>

definition DeleteDomain_updateDomains ::
  "string \<Rightarrow> string list \<Rightarrow> string \<Rightarrow> int \<Rightarrow> (string \<times> Entity) list" where
  "DeleteDomain_updateDomains domainID subDomains userID tnow =
     foldl (\<lambda>m sid. AList.update sid
                (NewEntity ''alternative_domains''
                   [(''status'', AString ''deleted''), (''deleted_by'', AString userID),
                    (''updated_by'', AString userID), (''deleted_at'', ATime tnow)]) m)
       (AList.update domainID
          (NewEntity ''domains''
             [(''status'', AString ''deleted''), (''deleted_by'', AString userID),
              (''updated_by'', AString userID), (''deleted_at'', ATime tnow)]) [])
       subDomains"

text \<open>
  The goroutine started after the commit. It shares nothing with the caller but the
  collaborators, so it is run here to its end, right after the commit. A panic in a
  goroutine ends the process; it is the outcome of the whole call.
\<close>

definition DeleteDomain_cleanup :: "Service \<Rightarrow> Env \<Rightarrow> string \<Rightarrow> State \<Rightarrow> unit result \<times> State" where
  "DeleteDomain_cleanup svc env domain s =
     (case SelectClientByName svc ''no'' of
        Panic p \<Rightarrow> (Panic p, s)
      | Return (Inl cErr) \<Rightarrow> (Return (), s)
      | Return (Inr c) \<Rightarrow> (Return (), snd (DeleteCertificateFiles svc env domain s)))"

text \<open>From the \<open>defer\<close> statement to the \<open>return\<close>: the value is the named result \<open>err\<close>.\<close>

definition DeleteDomain_tx ::
  "Service \<Rightarrow> Env \<Rightarrow> DeleteDomainReq \<Rightarrow> Tx \<Rightarrow> State \<Rightarrow> error option result \<times> State" where
  "DeleteDomain_tx svc env filters tx s =
     (case DeleteDomain_id env filters tx s of
        Inl err \<Rightarrow> (Return (Some err), s)
      | Inr domainID \<Rightarrow>
          (case GetListOfSubDomains env domainID s of
             Inl err \<Rightarrow> (Return (Some (Wrap ''error getting subdomains'' (Some err))), s)
           | Inr subDomains \<Rightarrow>
               (let tnow = time_Now env;
                    updateDomains =
                      DeleteDomain_updateDomains domainID subDomains (UserID filters) tnow in
                case updateMany env (Some tx) updateDomains s of
                  (Some err, s1) \<Rightarrow>
                    (Return (Some (Wrap ''error updating domain statuses'' (Some err))), s1)
                | (None, s1) \<Rightarrow>
                    (case GetCertificatesByDomain env domainID s1 of
                       Inl err \<Rightarrow> (Return (Some (Wrap ''error fetching certificates'' (Some err))), s1)
                     | Inr certsID \<Rightarrow>
                         (case (if certsID \<noteq> [] then
                                  updateMany env (Some tx)
                                    (AList.update certsID
                                       (NewEntity ''certificates''
                                          [(''deleted_by'', AString (UserID filters)),
                                           (''updated_by'', AString (UserID filters)),
                                           (''deleted_at'', ATime tnow)]) []) s1
                                else (None, s1)) of
                            (Some err, s2) \<Rightarrow>
                              (Return (Some (Wrap ''error updating certificate'' (Some err))), s2)
                          | (None, s2) \<Rightarrow>
                              (case writeEvent env (Some tx) domainID ''deleted''
                                      (''Domain '' @ [CHR 0x27] @ DomainName filters @ [CHR 0x27]
                                         @ '' and its certificates deleted'')
                                      (UserID filters) s2 of
                                 (Some err, s3) \<Rightarrow>
                                   (Return (Some (Wrap ''error inserting event'' (Some err))), s3)
                               | (None, s3) \<Rightarrow>
                                   (case Commit env s3 of
                                      (Some err, s4) \<Rightarrow>
                                        (Return (Some (Wrap ''commit error'' (Some err))), s4)
                                    | (None, s4) \<Rightarrow>
                                        (case DeleteDomain_cleanup svc env (DomainName filters) s4 of
                                           (Panic p, s5) \<Rightarrow> (Panic p, s5)
                                         | (Return _, s5) \<Rightarrow> (Return None, s5)))))))))"

text \<open>The deferred function of \<open>DeleteDomain\<close>: roll back when \<open>err\<close> is not nil.\<close>

definition DeleteDomain_deferred :: "Env \<Rightarrow> error option \<Rightarrow> State \<Rightarrow> State" where
  "DeleteDomain_deferred env err s = (if err \<noteq> None then snd (Rollback env s) else s)"

definition DeleteDomain ::
  "Service \<Rightarrow> Env \<Rightarrow> DeleteDomainReq \<Rightarrow> State \<Rightarrow> error option result \<times> State" where
  "DeleteDomain svc env filters s =
     (case BeginTx env s of
        (Inl err, s0) \<Rightarrow> (Return (Some (Wrap ''failed to begin transaction'' (Some err))), s0)
      | (Inr tx, s0) \<Rightarrow>
          (case DeleteDomain_tx svc env filters tx s0 of
             (Panic p, s1) \<Rightarrow> (Panic p, s1)
           | (Return err, s1) \<Rightarrow> (Return err, DeleteDomain_deferred env err s1)))"

subsection \<open>Renewal (the scheduler file of package services)\<close>

definition reloadNginxInContainer :: "Env \<Rightarrow> DomainsDTO \<Rightarrow> State \<Rightarrow> error option \<times> State" where
  "reloadNginxInContainer env domain s =
     (if dNginxContainerName (Details domain) = [] then (None, s)
      else
        (let s1 = log_call (CallReload (dNginxContainerName (Details domain))) s in
         case fault env (OpReload (dNginxContainerName (Details domain))) of
           Some e \<Rightarrow> (Some (Wrap ''failed to reload nginx inside container'' (Some e)), s1)
         | None \<Rightarrow> (None, s1)))"

text \<open>The entity that marks a domain as failed, built on both failure paths.\<close>

definition update_failed_data :: "DomainsDTO \<Rightarrow> (string \<times> Entity) list" where
  "update_failed_data domain =
     AList.update (ID domain)
       (NewEntity ''domains''
          [(''status'', AString ''update_failed''), (''updated_by'', AString ''system-renewal'')]) []"

text \<open>
  \<open>RenewDomainCertificate\<close> from its \<open>defer\<close> statement to its \<open>return\<close>. The function
  has an unnamed result, and the deferred function tests the variable \<open>err\<close> of the
  function's scope, so the value is a triple: the returned error (or the panic), that
  variable \<open>err\<close> at the moment the function leaves, and the state.

  \<open>client, err := s.SelectClientByName(...)\<close> assigns that \<open>err\<close> and nothing reads it
  before the next assignment: \<open>client\<close> is used whether or not it is nil. In the branch
  for a failed issuance, \<open>err := s.updateMany(...)\<close> declares a new variable \<open>err\<close> of
  the block; the event's message and the returned error are built from that one.
\<close>

definition RenewDomainCertificate_tx ::
  "Service \<Rightarrow> Env \<Rightarrow> DomainsDTO \<Rightarrow> Tx \<Rightarrow> State
     \<Rightarrow> error option result \<times> error option \<times> State" where
  "RenewDomainCertificate_tx svc env domain tx s =
     (case SelectClientByName svc (dDNSProvider (Details domain)) of
        Panic p \<Rightarrow> (Panic p, None, s)
      | Return sel \<Rightarrow>
          (let cl = (case sel of Inl _ \<Rightarrow> None | Inr c \<Rightarrow> Some c);
               err = (case sel of Inl e \<Rightarrow> Some e | Inr _ \<Rightarrow> None);
               san = (if length (Sub domain) > 0 then Sub domain else []) in
           case CreateCertificate env cl (dDomainName domain) san s of
             (Panic p, s1) \<Rightarrow> (Panic p, err, s1)
           | (Return (Inl cerr), s1) \<Rightarrow>
               (case updateMany env (Some tx) (update_failed_data domain) s1 of
                  (err2, s2) \<Rightarrow>
                    (case writeEvent env (Some tx) (ID domain) ''failed''
                            (''Certificate issuance failed: '' @ fmt_v err2) ''system-renewal'' s2 of
                       (err3, s3) \<Rightarrow>
                         (Return (Some (Wrap ''failed to create new certificate'' err3)),
                          Some cerr, s3)))
           | (Return (Inr certData), s1) \<Rightarrow>
               (case SaveCertificateFiles svc env (dDomainName domain) certData s1 of
                  (Inl serr, s2) \<Rightarrow>
                    (Return (Some (Wrap ''failed to save cert files'' (Some serr))), Some serr,
                     snd (updateMany env (Some tx) (update_failed_data domain) s2))
                | (Inr certPaths, s2) \<Rightarrow>
                    (case updateMany env (Some tx)
                            (AList.update (ID domain)
                               (NewEntity ''certificates''
                                  [(''cert_path'', AString (pCert certPaths)),
                                   (''key_path'', AString (pKey certPaths)),
                                   (''chain_path'', AString (pChain certPaths)),
                                   (''updated_by'', AString ''system-renewal''),
                                   (''valid_from'', ATime (ValidFrom certData)),
                                   (''valid_to'', ATime (ValidTo certData)),
                                   (''updated_at'', ATime (time_Now env))]) []) s2 of
                       (Some e, s3) \<Rightarrow>
                         (Return (Some (Wrap ''failed to update certificate'' (Some e))), Some e, s3)
                     | (None, s3) \<Rightarrow>
                         (case updateMany env (Some tx)
                                 (AList.update (ID domain)
                                    (NewEntity ''domains''
                                       [(''status'', AString ''active''),
                                        (''updated_by'', AString ''system-renewal'')]) []) s3 of
                            (Some e, s4) \<Rightarrow>
                              (Return (Some (Wrap ''failed to update domain status'' (Some e))),
                               Some e, s4)
                          | (None, s4) \<Rightarrow>
                              (case writeEvent env (Some tx) (ID domain) ''renewed''
                                      (''Certificate for '' @ [CHR 0x27] @ dDomainName domain
                                         @ [CHR 0x27] @ '' renewed'') ''system-renewal'' s4 of
                                 (Some e, s5) \<Rightarrow>
                                   (Return (Some (Wrap ''failed to insert event'' (Some e))),
                                    Some e, s5)
                               | (None, s5) \<Rightarrow>
                                   (case Commit env s5 of
                                      (Some e, s6) \<Rightarrow>
                                        (Return (Some (Wrap ''failed commit'' (Some e))), Some e, s6)
                                    | (None, s6) \<Rightarrow>
                                        (case reloadNginxInContainer env domain s6 of
                                           (Some e, s7) \<Rightarrow>
                                             (Return (Some (Wrap
                                                ''certificate renewed but nginx reload failed''
                                                (Some e))), None, s7)
                                         | (None, s7) \<Rightarrow> (Return None, None, s7)))))))))"

text \<open>
  The deferred function of \<open>RenewDomainCertificate\<close> runs on every way out, a panic
  included: it rolls back when the function's \<open>err\<close> is not nil.
\<close>

definition RenewDomainCertificate ::
  "Service \<Rightarrow> Env \<Rightarrow> DomainsDTO \<Rightarrow> State \<Rightarrow> error option result \<times> State" where
  "RenewDomainCertificate svc env domain s =
     (case BeginTx env s of
        (Inl err, s0) \<Rightarrow> (Return (Some (Wrap ''failed to begin tx'' (Some err))), s0)
      | (Inr tx, s0) \<Rightarrow>
          (case RenewDomainCertificate_tx svc env domain tx s0 of
             (r, err, s1) \<Rightarrow> (r, if err \<noteq> None then snd (Rollback env s1) else s1)))"

text \<open>Nanoseconds in an hour (\<open>time.Hour\<close>).\<close>

definition time_Hour :: int where
  "time_Hour = 3600000000000"

text \<open>
  The loop of \<open>RenewExpiringCertificates\<close> over the listed domains. An error of a
  renewal is logged and the loop goes on; a panic ends it.
\<close>

fun RenewExpiringCertificates_loop ::
  "Service \<Rightarrow> Env \<Rightarrow> int \<Rightarrow> DomainsDTO list \<Rightarrow> State \<Rightarrow> unit result \<times> State" where
  "RenewExpiringCertificates_loop svc env tnow [] s = (Return (), s)"
| "RenewExpiringCertificates_loop svc env tnow (d # ds) s =
     (if Status (Details d) = ''deleted'' \<or> \<not> dAutoRenew (Details d) then
        RenewExpiringCertificates_loop svc env tnow ds s
      else
        (let renewDate = CertValidTo (Details d) + (- 30 * 24 * time_Hour) in
         if tnow < renewDate then RenewExpiringCertificates_loop svc env tnow ds s
         else
           (case RenewDomainCertificate svc env d s of
              (Panic p, s1) \<Rightarrow> (Panic p, s1)
            | (Return _, s1) \<Rightarrow> RenewExpiringCertificates_loop svc env tnow ds s1)))"

definition RenewExpiringCertificates :: "Service \<Rightarrow> Env \<Rightarrow> State \<Rightarrow> unit result \<times> State" where
  "RenewExpiringCertificates svc env s =
     (case GetDomainsList env
             \<lparr>Limit = None, Offset = None, fDomainName = [], fStatus = [], fUserID = []\<rparr>
             (committed s) of
        Inl err \<Rightarrow> (Return (), s)
      | Inr domains \<Rightarrow> RenewExpiringCertificates_loop svc env (time_Now env) domains s)"

subsection \<open>Reading the database, and the variation of event faults\<close>

text \<open>The row of a table with a given id, and a column of it.\<close>

definition get_row :: "row list \<Rightarrow> string \<Rightarrow> string \<Rightarrow> Entity option" where
  "get_row db table rid =
     map_option snd (find (\<lambda>r. fst r = rid \<and> EntityName (snd r) = table) db)"

definition string_column :: "row list \<Rightarrow> string \<Rightarrow> string \<Rightarrow> string \<Rightarrow> string option" where
  "string_column db table rid col =
     (case get_row db table rid of None \<Rightarrow> None | Some e \<Rightarrow> StringParameters e col)"

definition time_column :: "row list \<Rightarrow> string \<Rightarrow> string \<Rightarrow> string \<Rightarrow> int option" where
  "time_column db table rid col =
     (case get_row db table rid of None \<Rightarrow> None | Some e \<Rightarrow> TimeParameters e col)"

definition rows_of :: "string \<Rightarrow> row list \<Rightarrow> row list" where
  "rows_of table db = filter (\<lambda>r. EntityName (snd r) = table) db"

text \<open>
  An environment that differs from \<open>env\<close> in the outcome of the inserts into table
  \<open>events\<close> only: those are decided by \<open>f\<close>.
\<close>

definition with_event_fault :: "(Entity \<Rightarrow> error option) \<Rightarrow> Env \<Rightarrow> Env" where
  "with_event_fault f env =
     env\<lparr>fault := (\<lambda>x. case x of
                      OpInsertTx e \<Rightarrow> if EntityName e = ''events'' then f e else fault env x
                    | _ \<Rightarrow> fault env x)\<rparr>"

text \<open>
  The columns that \<open>DeleteDomain\<close> sets on a row of each table (the entities built in
  its body: a status for domains and alternative domains, none for certificates), and
  the rows of a database as a delete of a domain, its alternative domains and its
  certificate would leave them. The theorem on \<open>DeleteDomain\<close> shows that this is what
  a successful delete commits.
\<close>

definition deleted_columns :: "string \<Rightarrow> string \<Rightarrow> int \<Rightarrow> Entity" where
  "deleted_columns table userID tnow =
     NewEntity table
       ((if table = ''certificates'' then [] else [(''status'', AString ''deleted'')])
        @ [(''deleted_by'', AString userID), (''updated_by'', AString userID),
           (''deleted_at'', ATime tnow)])"

definition mark_deleted :: "string \<Rightarrow> string list \<Rightarrow> string \<Rightarrow> string \<Rightarrow> int \<Rightarrow> row \<Rightarrow> row" where
  "mark_deleted domainID subDomains certsID userID tnow r =
     (if (EntityName (snd r) = ''domains'' \<and> fst r = domainID)
         \<or> (EntityName (snd r) = ''alternative_domains'' \<and> fst r \<in> set subDomains)
         \<or> (EntityName (snd r) = ''certificates'' \<and> certsID \<noteq> [] \<and> fst r = certsID)
      then (fst r, merge_row (snd r) (deleted_columns (EntityName (snd r)) userID tnow))
      else r)"

text \<open>Ceiling of a quotient of non-negative numbers, as the spec words \<open>totalPages\<close>.\<close>

definition ceil_div :: "int \<Rightarrow> int \<Rightarrow> int" where
  "ceil_div n d = (if n mod d = 0 then n div d else n div d + 1)"

subsection \<open>A small installation\<close>

text \<open>
  Two registered providers, a storage directory \<open>./certs\<close>, two domains of which the
  first has an alternative name and a certificate, and a certificate authority that
  answers. The variants below make the authority or the event table fail.
\<close>

definition ex_service :: Service where
  "ex_service =
     \<lparr>client = [\<lparr>Name = ''cloudflare'', URL = ''https://api.cloudflare.com'', Key = ''k1''\<rparr>,
                \<lparr>Name = ''hetzner'', URL = ''https://dns.hetzner.com'', Key = ''k2''\<rparr>],
      StorageDir = ''./certs''\<rparr>"

definition ex_rows :: "row list" where
  "ex_rows =
     [(''d1'', NewEntity ''domains''
                [(''domain_name'', AString ''example.com''), (''dns_provider'', AString ''cloudflare''),
                 (''status'', AString ''active''), (''auto_renew'', ABool True)]),
      (''a1'', NewEntity ''alternative_domains''
                [(''domain_id'', AString ''d1''), (''domain_name'', AString ''www.example.com'')]),
      (''c1'', NewEntity ''certificates''
                [(''domain_id'', AString ''d1''), (''status'', AString ''active''),
                 (''valid_to'', ATime 5000)]),
      (''d2'', NewEntity ''domains''
                [(''domain_name'', AString ''other.org''), (''dns_provider'', AString ''hetzner''),
                 (''status'', AString ''active''), (''auto_renew'', ABool True)])]"

definition ex_state :: State where
  "ex_state =
     \<lparr>committed = ex_rows, pending = None,
      files = [''certs'', ''certs/acme_user.key'', ''certs/example.com'',
               ''certs/example.com/cert.pem'', ''certs/other.org'',
               ''certs/other.org/cert.pem''],
      calls = []\<rparr>"

definition ex_env :: Env where
  "ex_env =
     \<lparr>time_Now = 7000,
      fault = (\<lambda>x. None),
      acme = (\<lambda>c d san. Inr \<lparr>cCert = ''CERT'', cKey = ''KEY'', cChain = ''CHAIN'',
                               ValidFrom = 7000, ValidTo = 9000\<rparr>),
      new_id = (\<lambda>db e. replicate (Suc (length db)) (CHR ''n'')),
      GetDomainsCount = (\<lambda>f db. Inr 3),
      GetDomainsList = (\<lambda>f db. Inr [])\<rparr>"

definition ex_env_no_issue :: Env where
  "ex_env_no_issue = ex_env\<lparr>acme := (\<lambda>c d san. Inl (Msg ''acme: rate limited''))\<rparr>"

definition ex_domain :: DomainsDTO where
  "ex_domain =
     \<lparr>ID = ''d1'', dDomainName = ''example.com'', Sub = [''www.example.com''],
      Details = \<lparr>Status = ''active'', dAutoRenew = True, CertValidTo = 5000,
                 dDNSProvider = ''cloudflare'', dNginxContainerName = []\<rparr>\<rparr>"

definition ex_domain_route53 :: DomainsDTO where
  "ex_domain_route53 = ex_domain\<lparr>Details := (Details ex_domain)\<lparr>dDNSProvider := ''route53''\<rparr>\<rparr>"

definition ex_domain_deleted :: DomainsDTO where
  "ex_domain_deleted = ex_domain\<lparr>Details := (Details ex_domain)\<lparr>Status := ''deleted''\<rparr>\<rparr>"

definition ex_delete_by_name :: DeleteDomainReq where
  "ex_delete_by_name = \<lparr>DomainID = [], DomainName = ''example.com'', UserID = ''bob''\<rparr>"

definition ex_delete_by_id :: DeleteDomainReq where
  "ex_delete_by_id = \<lparr>DomainID = ''d1'', DomainName = [], UserID = ''bob''\<rparr>"

definition ex_create :: CreateDomainReq where
  "ex_create =
     \<lparr>CreatedBy = ''bob'', Domain = ''new.io'', AltDomains = [''www.new.io''],
      VerificationMethod = ''dns'', AutoRenew = True, NginxContainerName = ''proxy'',
      DNSProvider = ''hetzner''\<rparr>"

section \<open>Lemmas about the repository and the helpers\<close>

lemma EntityName_NewEntity_set [simp]: "EntityName (NewEntity_set k v e) = EntityName e"
  by (cases v) simp_all

lemma EntityName_NewEntity_loop [simp]: "EntityName (NewEntity_loop ps e) = EntityName e"
  by (induction ps arbitrary: e) auto

lemma EntityName_NewEntity [simp]: "EntityName (NewEntity t ps) = t"
  by (simp add: NewEntity_def)

lemma EntityName_merge_row [simp]: "EntityName (merge_row a b) = EntityName a"
  by (simp add: merge_row_def)

lemma fst_update_row [simp]: "fst (update_row e rid r) = fst r"
  by (simp add: update_row_def)

lemma EntityName_update_row [simp]: "EntityName (snd (update_row e rid r)) = EntityName (snd r)"
  by (simp add: update_row_def)

lemma apply_writes_append: "apply_writes (xs @ ys) db = apply_writes ys (apply_writes xs db)"
  by (simp add: apply_writes_def)

lemma apply_writes_Nil [simp]: "apply_writes [] db = db"
  by (simp add: apply_writes_def)

lemma apply_writes_single [simp]: "apply_writes [w] db = apply_write w db"
  by (simp add: apply_writes_def)

text \<open>What each step leaves alone, and what a successful step adds to the transaction.\<close>

lemma UpdateTx_tx:
  "UpdateTx env (Some tx) e rid s = (r, s') \<Longrightarrow>
     committed s' = committed s \<and> files s' = files s
     \<and> (\<forall>ws. pending s = Some ws \<longrightarrow>
           (r = None \<longrightarrow> pending s' = Some (ws @ [WUpdate e rid])) \<and>
           (r \<noteq> None \<longrightarrow> pending s' = Some ws))"
  by (auto simp: UpdateTx_def log_call_def Let_def split: option.splits)

lemma InsertTx_tx:
  "InsertTx env (Some tx) e s = (r, s') \<Longrightarrow>
     committed s' = committed s \<and> files s' = files s
     \<and> (\<forall>ws. pending s = Some ws \<longrightarrow>
           (\<forall>rid. r = Inr rid \<longrightarrow> pending s' = Some (ws @ [WInsert rid e])) \<and>
           (\<forall>err. r = Inl err \<longrightarrow> pending s' = Some ws))"
  by (auto simp: InsertTx_def log_call_def Let_def split: option.splits)

lemma updateMany_tx:
  "updateMany env (Some tx) ups s = (r, s') \<Longrightarrow>
     committed s' = committed s \<and> files s' = files s
     \<and> (\<forall>ws. pending s = Some ws \<longrightarrow>
           (r = None \<longrightarrow> pending s' = Some (ws @ map (\<lambda>(rid, e). WUpdate e rid) ups)) \<and>
           (\<exists>ws'. pending s' = Some ws'))"
proof (induction ups arbitrary: s)
  case Nil
  then show ?case by simp
next
  case (Cons a ups)
  obtain rid e where a: "a = (rid, e)" by (cases a)
  obtain r1 s1 where u: "UpdateTx env (Some tx) e rid s = (r1, s1)" by (cases "UpdateTx env (Some tx) e rid s")
  note f = UpdateTx_tx[OF u]
  show ?case
  proof (cases r1)
    case None
    with Cons.prems a u have "updateMany env (Some tx) ups s1 = (r, s')" by simp
    from Cons.IH[OF this] f None show ?thesis by (auto simp: a)
  next
    case (Some err)
    with Cons.prems a u have "s' = s1" "r \<noteq> None" by auto
    with f Some show ?thesis by auto
  qed
qed

lemma writeEvent_tx:
  "writeEvent env (Some tx) d t m c s = (r, s') \<Longrightarrow>
     committed s' = committed s \<and> files s' = files s
     \<and> (\<forall>ws. pending s = Some ws \<longrightarrow>
           (r = None \<longrightarrow> (\<exists>rid ev. pending s' = Some (ws @ [WInsert rid ev])
                \<and> EntityName ev = ''events'' \<and> StringParameters ev ''domain_id'' = Some d
                \<and> StringParameters ev ''event_type'' = Some t)) \<and>
           (\<exists>ws'. pending s' = Some ws'))"
  unfolding writeEvent_def Let_def
  by (auto split: prod.splits sum.splits dest!: InsertTx_tx simp: NewEntity_def)

lemma Commit_frame:
  "Commit env s = (r, s') \<Longrightarrow>
     files s' = files s \<and>
     (r \<noteq> None \<longrightarrow> committed s' = committed s) \<and>
     (\<forall>ws. pending s = Some ws \<longrightarrow> r = None \<longrightarrow> committed s' = apply_writes ws (committed s))"
  by (auto simp: Commit_def split: option.splits)

lemma Rollback_frame [simp]:
  "committed (snd (Rollback env s)) = committed s" "files (snd (Rollback env s)) = files s"
  by (auto simp: Rollback_def split: option.splits)

lemma DeleteCertificateFiles_committed [simp]:
  "committed (snd (DeleteCertificateFiles svc env d s)) = committed s"
  by (auto simp: DeleteCertificateFiles_def RemoveAll_def log_call_def Let_def split: option.splits)

lemma DeleteDomain_cleanup_committed:
  "DeleteDomain_cleanup svc env d s = (r, s') \<Longrightarrow> committed s' = committed s"
  by (auto simp: DeleteDomain_cleanup_def split: result.splits sum.splits)

text \<open>A batch of updates with distinct ids, row by row.\<close>

lemma fold_update_row_distinct:
  "distinct (map fst ups) \<Longrightarrow>
     fold (\<lambda>(rid, e). update_row e rid) ups r =
       (case map_of ups (fst r) of None \<Rightarrow> r | Some e \<Rightarrow> update_row e (fst r) r)"
proof (induction ups arbitrary: r)
  case Nil
  then show ?case by simp
next
  case (Cons a ups)
  obtain k e where a: "a = (k, e)" by (cases a)
  from Cons.prems a have d: "distinct (map fst ups)" and nk: "k \<notin> fst ` set ups" by auto
  show ?case
  proof (cases "fst r = k")
    case True
    have "map_of ups (fst (update_row e k r)) = None"
      using nk True by (simp add: map_of_eq_None_iff)
    then show ?thesis using Cons.IH[OF d, of "update_row e k r"] True a by simp
  next
    case False
    then have "update_row e k r = r" by (simp add: update_row_def)
    then show ?thesis using Cons.IH[OF d, of r] False a by simp
  qed
qed

lemma apply_writes_updates:
  "apply_writes (map (\<lambda>(rid, e). WUpdate e rid) ups) db
     = map (fold (\<lambda>(rid, e). update_row e rid) ups) db"
proof (induction ups arbitrary: db)
  case Nil
  then show ?case by (simp add: apply_writes_def)
next
  case (Cons a ups)
  obtain k e where a: "a = (k, e)" by (cases a)
  have "apply_writes (map (\<lambda>(rid, e). WUpdate e rid) (a # ups)) db
          = apply_writes (map (\<lambda>(rid, e). WUpdate e rid) ups) (map (update_row e k) db)"
    by (simp add: apply_writes_def a)
  then show ?case using Cons.IH[of "map (update_row e k) db"] by (simp add: a comp_def)
qed

lemma map_of_foldl_update:
  "map_of (foldl (\<lambda>m sid. AList.update sid e m) m0 subs) k
     = (if k \<in> set subs then Some e else map_of m0 k)"
  by (induction subs arbitrary: m0) (auto simp: update_conv')

lemma distinct_foldl_update:
  "distinct (map fst m0) \<Longrightarrow> distinct (map fst (foldl (\<lambda>m sid. AList.update sid e m) m0 subs))"
  by (induction subs arbitrary: m0) (auto simp: distinct_update)

lemma DeleteDomain_updateDomains_row:
  assumes "domainID \<notin> set subDomains"
  shows "fold (\<lambda>(rid, e). update_row e rid)
           (DeleteDomain_updateDomains domainID subDomains userID tnow) r
         = mark_deleted domainID subDomains [] userID tnow r"
proof -
  let ?ups = "DeleteDomain_updateDomains domainID subDomains userID tnow"
  have d: "distinct (map fst ?ups)"
    unfolding DeleteDomain_updateDomains_def by (rule distinct_foldl_update) simp
  show ?thesis
    unfolding fold_update_row_distinct[OF d]
    using assms
    by (auto simp: DeleteDomain_updateDomains_def map_of_foldl_update mark_deleted_def
        update_row_def deleted_columns_def)
qed

lemma mark_deleted_certificate:
  "certsID \<noteq> [] \<Longrightarrow>
   update_row (NewEntity ''certificates''
                 [(''deleted_by'', AString userID), (''updated_by'', AString userID),
                  (''deleted_at'', ATime tnow)]) certsID
              (mark_deleted domainID subDomains [] userID tnow r)
     = mark_deleted domainID subDomains certsID userID tnow r"
  by (auto simp: mark_deleted_def update_row_def deleted_columns_def)

lemma BeginTx_cases:
  "BeginTx env s = (r, s0) \<Longrightarrow>
     (\<exists>e. r = Inl e \<and> s0 = s) \<or> (r = Inr TxHandle \<and> s0 = s\<lparr>pending := Some []\<rparr>)"
  by (auto simp: BeginTx_def split: option.splits)

lemma GetListOfSubDomains_pending [simp]:
  "GetListOfSubDomains env d (s\<lparr>pending := p\<rparr>) = GetListOfSubDomains env d s"
  by (simp add: GetListOfSubDomains_def split: option.splits)

lemma GetListOfSubDomains_committed:
  "committed s' = committed s \<Longrightarrow> GetListOfSubDomains env d s' = GetListOfSubDomains env d s"
  by (simp add: GetListOfSubDomains_def split: option.splits)

lemma GetCertificatesByDomain_committed:
  "committed s' = committed s \<Longrightarrow> GetCertificatesByDomain env d s' = GetCertificatesByDomain env d s"
  by (simp add: GetCertificatesByDomain_def split: option.splits)

text \<open>The steps of a delete that returns nil, one after the other.\<close>

lemma DeleteDomain_tx_ok:
  assumes ok: "DeleteDomain_tx svc env filters tx s0 = (Return None, s5)"
    and p0: "pending s0 = Some []"
    and did: "DeleteDomain_id env filters tx s0 = Inr domainID"
    and subs: "GetListOfSubDomains env domainID s0 = Inr subDomains"
    and cert: "GetCertificatesByDomain env domainID s0 = Inr certsID"
  shows "\<exists>rid ev s4. committed s5 =
           apply_writes
             (map (\<lambda>(rid, e). WUpdate e rid)
                  (DeleteDomain_updateDomains domainID subDomains (UserID filters) (time_Now env))
              @ (if certsID \<noteq> [] then
                   [WUpdate (NewEntity ''certificates''
                               [(''deleted_by'', AString (UserID filters)),
                                (''updated_by'', AString (UserID filters)),
                                (''deleted_at'', ATime (time_Now env))]) certsID]
                 else [])
              @ [WInsert rid ev]) (committed s0)
          \<and> EntityName ev = ''events'' \<and> StringParameters ev ''domain_id'' = Some domainID
          \<and> StringParameters ev ''event_type'' = Some ''deleted''
          \<and> files s4 = files s0
          \<and> DeleteDomain_cleanup svc env (DomainName filters) s4 = (Return (), s5)"
proof -
  let ?ups = "DeleteDomain_updateDomains domainID subDomains (UserID filters) (time_Now env)"
  let ?ce = "NewEntity ''certificates''
                               [(''deleted_by'', AString (UserID filters)),
                                (''updated_by'', AString (UserID filters)),
                                (''deleted_at'', ATime (time_Now env))]"
  obtain r1 s1 where u1: "updateMany env (Some tx) ?ups s0 = (r1, s1)"
    by (cases "updateMany env (Some tx) ?ups s0")
  have r1: "r1 = None"
    using ok did subs u1 by (cases r1) (simp_all add: DeleteDomain_tx_def Let_def)
  note f1 = updateMany_tx[OF u1]
  have c1: "GetCertificatesByDomain env domainID s1 = Inr certsID"
    using cert f1 GetCertificatesByDomain_committed[of s1 s0] by simp
  obtain r2 s2 where u2:
    "(if certsID \<noteq> [] then updateMany env (Some tx) (AList.update certsID ?ce []) s1 else (None, s1))
       = (r2, s2)"
    by (cases "if certsID \<noteq> [] then updateMany env (Some tx) (AList.update certsID ?ce []) s1 else (None, s1)")
  have r2: "r2 = None"
    using ok did subs u1 r1 c1 u2 by (cases r2) (simp_all add: DeleteDomain_tx_def Let_def)
  have f2: "committed s2 = committed s0 \<and> files s2 = files s0 \<and>
            pending s2 = Some (map (\<lambda>(rid, e). WUpdate e rid) ?ups
                               @ (if certsID \<noteq> [] then [WUpdate ?ce certsID] else []))"
  proof (cases "certsID \<noteq> []")
    case True
    with u2 have "updateMany env (Some tx) (AList.update certsID ?ce []) s1 = (r2, s2)" by simp
    from updateMany_tx[OF this] f1 r1 r2 p0 True show ?thesis by simp
  next
    case False
    with u2 f1 r1 p0 show ?thesis by auto
  qed
  let ?msg = "''Domain '' @ [CHR 0x27] @ DomainName filters @ [CHR 0x27] @ '' and its certificates deleted''"
  obtain r3 s3 where u3:
    "writeEvent env (Some tx) domainID ''deleted'' ?msg (UserID filters) s2 = (r3, s3)"
    by (cases "writeEvent env (Some tx) domainID ''deleted'' ?msg (UserID filters) s2")
  have r3: "r3 = None"
    using ok did subs u1 r1 c1 u2 r2 u3 by (cases r3) (simp_all add: DeleteDomain_tx_def Let_def)
  from writeEvent_tx[OF u3] f2 r3 obtain rid ev where
    f3: "committed s3 = committed s0" "files s3 = files s0"
        "pending s3 = Some ((map (\<lambda>(rid, e). WUpdate e rid) ?ups
                               @ (if certsID \<noteq> [] then [WUpdate ?ce certsID] else []))
                             @ [WInsert rid ev])"
        "EntityName ev = ''events''" "StringParameters ev ''domain_id'' = Some domainID"
        "StringParameters ev ''event_type'' = Some ''deleted''"
    by auto
  obtain r4 s4 where u4: "Commit env s3 = (r4, s4)" by (cases "Commit env s3")
  have r4: "r4 = None"
    using ok did subs u1 r1 c1 u2 r2 u3 r3 u4 by (cases r4) (simp_all add: DeleteDomain_tx_def Let_def)
  from Commit_frame[OF u4] f3 r4 have
    f4: "files s4 = files s0"
        "committed s4 = apply_writes ((map (\<lambda>(rid, e). WUpdate e rid) ?ups
                               @ (if certsID \<noteq> [] then [WUpdate ?ce certsID] else []))
                             @ [WInsert rid ev]) (committed s0)"
    by auto
  have u5: "DeleteDomain_cleanup svc env (DomainName filters) s4 = (Return (), s5)"
    using ok did subs u1 r1 c1 u2 r2 u3 r3 u4 r4
    by (cases "DeleteDomain_cleanup svc env (DomainName filters) s4")
       (auto simp add: DeleteDomain_tx_def Let_def split: result.splits)
  from DeleteDomain_cleanup_committed[OF u5] f4 f3 u5 show ?thesis by auto
qed

lemma apply_writes_Cons: "apply_writes (w # ws) db = apply_writes ws (apply_write w db)"
  by (simp add: apply_writes_def)

lemma DeleteDomain_tx_error_frame:
  "DeleteDomain_tx svc env filters tx s0 = (Return (Some e), s1) \<Longrightarrow> committed s1 = committed s0"
  unfolding DeleteDomain_tx_def Let_def
  by (auto simp del: updateMany.simps
      split: sum.splits prod.splits option.splits if_splits result.splits
      dest!: updateMany_tx writeEvent_tx Commit_frame DeleteDomain_cleanup_committed)

lemma DeleteDomain_error_frame:
  "fst (DeleteDomain svc env filters s) = Return (Some e) \<Longrightarrow>
     committed (snd (DeleteDomain svc env filters s)) = committed s"
  unfolding DeleteDomain_def DeleteDomain_deferred_def
  by (auto split: prod.splits sum.splits result.splits option.splits
      dest!: BeginTx_cases DeleteDomain_tx_error_frame)

lemma mark_deleted_columns:
  "(EntityName (snd r) = ''domains'' \<and> fst r = domainID
      \<or> EntityName (snd r) = ''alternative_domains'' \<and> fst r \<in> set subDomains \<longrightarrow>
      StringParameters (snd (mark_deleted domainID subDomains certsID userID tnow r)) ''status''
        = Some ''deleted''
      \<and> StringParameters (snd (mark_deleted domainID subDomains certsID userID tnow r)) ''deleted_by''
        = Some userID
      \<and> TimeParameters (snd (mark_deleted domainID subDomains certsID userID tnow r)) ''deleted_at''
        = Some tnow)
   \<and> (EntityName (snd r) = ''certificates'' \<and> certsID \<noteq> [] \<and> fst r = certsID \<longrightarrow>
      StringParameters (snd (mark_deleted domainID subDomains certsID userID tnow r)) ''status''
        = StringParameters (snd r) ''status''
      \<and> StringParameters (snd (mark_deleted domainID subDomains certsID userID tnow r)) ''deleted_by''
        = Some userID
      \<and> TimeParameters (snd (mark_deleted domainID subDomains certsID userID tnow r)) ''deleted_at''
        = Some tnow)"
  by (auto simp: mark_deleted_def deleted_columns_def merge_row_def NewEntity_def)

text \<open>Unfolding the model on the small installation.\<close>

lemmas repo_defs = BeginTx_def Commit_def Rollback_def InsertTx_def UpdateTx_def log_call_def
  IsDomainExists_def GetIDByNameTx_def GetListOfSubDomains_def GetCertificatesByDomain_def
  visible_def apply_writes_def update_row_def merge_row_def NewEntity_def
  live_domain_def live_subdomain_def live_certificate_def

lemmas fs_defs = filepath_Clean_def Clean_step_def path_inside_def MkdirAll_def WriteFile_def
  RemoveAll_def DeleteCertificateFiles_def SaveCertificateFiles_def

lemmas ex_defs = ex_service_def ex_env_def ex_state_def ex_rows_def ex_env_no_issue_def
  ex_domain_def ex_delete_by_name_def ex_delete_by_id_def ex_create_def

lemmas delete_defs = DeleteDomain_def DeleteDomain_tx_def DeleteDomain_id_def
  DeleteDomain_updateDomains_def DeleteDomain_cleanup_def DeleteDomain_deferred_def
  SelectClientByName_def writeEvent_def

lemmas renew_defs = RenewDomainCertificate_def RenewDomainCertificate_tx_def
  SelectClientByName_def CreateCertificate_def update_failed_data_def writeEvent_def
  reloadNginxInContainer_def

lemmas create_defs = CreateDomain_def CreateDomain_tx_def CreateDomain_deferred_def
  SelectClientByName_def CreateCertificate_def writeEvent_def safeWriteEvent_def

text \<open>An environment that differs in the event faults only.\<close>

lemma with_event_fault_simps [simp]:
  "time_Now (with_event_fault f env) = time_Now env"
  "acme (with_event_fault f env) = acme env"
  "new_id (with_event_fault f env) = new_id env"
  "fault (with_event_fault f env) (OpInsertTx e)
     = (if EntityName e = ''events'' then f e else fault env (OpInsertTx e))"
  "fault (with_event_fault f env) (OpUpdateTx e rid) = fault env (OpUpdateTx e rid)"
  "fault (with_event_fault f env) OpBeginTx = fault env OpBeginTx"
  "fault (with_event_fault f env) OpCommit = fault env OpCommit"
  "fault (with_event_fault f env) OpRollback = fault env OpRollback"
  "fault (with_event_fault f env) (OpIsDomainExists n) = fault env (OpIsDomainExists n)"
  "fault (with_event_fault f env) (OpGetIDByNameTx e) = fault env (OpGetIDByNameTx e)"
  "fault (with_event_fault f env) (OpGetListOfSubDomains n) = fault env (OpGetListOfSubDomains n)"
  "fault (with_event_fault f env) (OpGetCertificatesByDomain n) = fault env (OpGetCertificatesByDomain n)"
  "fault (with_event_fault f env) (OpMkdirAll n) = fault env (OpMkdirAll n)"
  "fault (with_event_fault f env) (OpWriteFile n) = fault env (OpWriteFile n)"
  "fault (with_event_fault f env) (OpRemoveAll n) = fault env (OpRemoveAll n)"
  "fault (with_event_fault f env) (OpReload n) = fault env (OpReload n)"
  by (simp_all add: with_event_fault_def)

lemma InsertTx_wef:
  "EntityName e \<noteq> ''events'' \<Longrightarrow> InsertTx (with_event_fault f env) tx e s = InsertTx env tx e s"
  by (simp add: InsertTx_def Let_def split: option.splits)

lemma UpdateTx_wef [simp]: "UpdateTx (with_event_fault f env) tx e rid s = UpdateTx env tx e rid s"
  by (simp add: UpdateTx_def Let_def split: option.splits)

lemma updateMany_wef [simp]: "updateMany (with_event_fault f env) tx ups s = updateMany env tx ups s"
  by (induction ups arbitrary: s) (auto split: prod.splits option.splits)

lemma repo_wef [simp]:
  "BeginTx (with_event_fault f env) s = BeginTx env s"
  "Commit (with_event_fault f env) s = Commit env s"
  "Rollback (with_event_fault f env) s = Rollback env s"
  "IsDomainExists (with_event_fault f env) n s = IsDomainExists env n s"
  "GetIDByNameTx (with_event_fault f env) tx e s = GetIDByNameTx env tx e s"
  "GetListOfSubDomains (with_event_fault f env) n s = GetListOfSubDomains env n s"
  "GetCertificatesByDomain (with_event_fault f env) n s = GetCertificatesByDomain env n s"
  by (simp_all add: BeginTx_def Commit_def Rollback_def IsDomainExists_def GetIDByNameTx_def
      GetListOfSubDomains_def GetCertificatesByDomain_def split: option.splits)

lemma fs_wef [simp]:
  "MkdirAll (with_event_fault f env) p s = MkdirAll env p s"
  "WriteFile (with_event_fault f env) p s = WriteFile env p s"
  "RemoveAll (with_event_fault f env) p s = RemoveAll env p s"
  by (simp_all add: MkdirAll_def WriteFile_def RemoveAll_def split: option.splits)



lemma client_wef [simp]:
  "CreateCertificate (with_event_fault f env) c d san s = CreateCertificate env c d san s"
  "SaveCertificateFiles svc (with_event_fault f env) d cd s = SaveCertificateFiles svc env d cd s"
  "DeleteCertificateFiles svc (with_event_fault f env) d s = DeleteCertificateFiles svc env d s"
  unfolding CreateCertificate_def SaveCertificateFiles_def DeleteCertificateFiles_def
    fs_wef with_event_fault_simps
  by (rule refl)+

lemma CreateDomain_alt_wef [simp]:
  "CreateDomain_alt (with_event_fault f env) tx did u subs s = CreateDomain_alt env tx did u subs s"
  by (induction subs arbitrary: s) (auto simp: InsertTx_wef Let_def split: prod.splits sum.splits)

lemma fst_CreateDomain_deferred [simp]: "fst (CreateDomain_deferred env req x) = fst x"
  by (auto simp: CreateDomain_deferred_def Let_def split: prod.splits option.splits)

lemma fst_CreateDomain_tx_wef:
  "fst (CreateDomain_tx (with_event_fault f env) req cd cp tx s) = fst (CreateDomain_tx env req cd cp tx s)"
  by (simp add: CreateDomain_tx_def InsertTx_wef Let_def split: prod.splits sum.splits option.splits)

lemma fst_CreateDomain_wef:
  "fst (CreateDomain svc (with_event_fault f env) req s) = fst (CreateDomain svc env req s)"
proof -
  have d: "fst (case x of (r, s4) \<Rightarrow> (Return r, s4)) = Return (fst x)"
    for x :: "(string \<times> error option) \<times> State"
    by (cases x) simp
  show ?thesis
    by (simp add: CreateDomain_def d fst_CreateDomain_tx_wef
        split: sum.splits result.splits prod.splits)
qed


lemma writeEvent_failing:
  "fst (writeEvent (with_event_fault (\<lambda>ev. Some e) env) tx d t m c s)
     = Some (Wrap ''failed to write event'' (Some e))"
  by (simp add: writeEvent_def InsertTx_def Let_def)

lemma writeEvent_failing_None:
  "writeEvent (with_event_fault (\<lambda>ev. Some e) env) tx d t m c s = (None, s') \<Longrightarrow> False"
  using writeEvent_failing[of e env tx d t m c s] by simp

lemma DeleteDomain_tx_failing_events:
  "\<exists>err s1. DeleteDomain_tx svc (with_event_fault (\<lambda>ev. Some e) env) filters tx s = (Return (Some err), s1)"
  unfolding DeleteDomain_tx_def Let_def
  by (auto simp del: updateMany.simps split: sum.splits prod.splits option.splits result.splits
      dest: writeEvent_failing_None)

lemma DeleteDomain_failing_events:
  "\<exists>err. fst (DeleteDomain svc (with_event_fault (\<lambda>ev. Some e) env) filters s) = Return (Some err)"
proof (cases "BeginTx env s")
  case (Pair r s0)
  show ?thesis
  proof (cases r)
    case (Inl a)
    with Pair show ?thesis by (simp add: DeleteDomain_def)
  next
    case (Inr tx)
    obtain err s1 where
      "DeleteDomain_tx svc (with_event_fault (\<lambda>ev. Some e) env) filters tx s0 = (Return (Some err), s1)"
      using DeleteDomain_tx_failing_events by blast
    with Pair Inr show ?thesis by (simp add: DeleteDomain_def)
  qed
qed


lemma writeEvent_failing_eq:
  "writeEvent (with_event_fault (\<lambda>ev. Some e) env) tx d t m c s
     = (Some (Wrap ''failed to write event'' (Some e)),
        log_call (CallInsertTx (NewEntity ''events''
            [(''domain_id'', AString d), (''event_type'', AString t),
             (''message'', AString m), (''created_by'', AString c)])) s)"
  by (simp add: writeEvent_def InsertTx_def Let_def)

lemma RenewDomainCertificate_tx_failing_events:
  "fst (RenewDomainCertificate_tx svc (with_event_fault (\<lambda>ev. Some e) env) d tx s) \<noteq> Return None"
proof (cases "SelectClientByName svc (dDNSProvider (Details d))")
  case (Panic p)
  then show ?thesis by (simp add: RenewDomainCertificate_tx_def)
next
  case (Return sel)
  let ?cl = "case sel of Inl _ \<Rightarrow> None | Inr c \<Rightarrow> Some c"
  let ?san = "if length (Sub d) > 0 then Sub d else []"
  obtain r s1 where c: "CreateCertificate env ?cl (dDomainName d) ?san s = (r, s1)"
    by (cases "CreateCertificate env ?cl (dDomainName d) ?san s")
  show ?thesis
  proof (cases r)
    case (Panic p)
    with Return c show ?thesis by (simp add: RenewDomainCertificate_tx_def Let_def)
  next
    case r: (Return x)
    show ?thesis
    proof (cases x)
      case (Inl cerr)
      with Return c r show ?thesis
        by (simp add: RenewDomainCertificate_tx_def Let_def split: prod.splits)
    next
      case (Inr certData)
      with Return c r show ?thesis
        by (simp add: RenewDomainCertificate_tx_def Let_def writeEvent_failing_eq
            del: updateMany.simps split: prod.splits sum.splits option.splits)
    qed
  qed
qed

lemma RenewDomainCertificate_failing_events:
  "fst (RenewDomainCertificate svc (with_event_fault (\<lambda>ev. Some e) env) d s) \<noteq> Return None"
proof (cases "BeginTx env s")
  case (Pair r s0)
  show ?thesis
  proof (cases r)
    case (Inl a)
    with Pair show ?thesis by (simp add: RenewDomainCertificate_def)
  next
    case (Inr tx)
    obtain rr err s1 where
      t: "RenewDomainCertificate_tx svc (with_event_fault (\<lambda>ev. Some e) env) d tx s0 = (rr, err, s1)"
      by (cases "RenewDomainCertificate_tx svc (with_event_fault (\<lambda>ev. Some e) env) d tx s0") auto
    with RenewDomainCertificate_tx_failing_events[of svc e env d tx s0]
    have "rr \<noteq> Return None" by simp
    with Pair Inr t show ?thesis by (simp add: RenewDomainCertificate_def)
  qed
qed

text \<open>Joining the storage directory with an empty name.\<close>

lemma split_path_not_Nil [simp]: "split_path p \<noteq> []"
  by (induction p) (auto split: list.splits)

lemma split_path_trailing_slash: "split_path (p @ ''/'') = split_path p @ [ [] ]"
  by (induction p) (auto split: list.splits)

lemma filepath_Clean_trailing_slash:
  assumes "p \<noteq> []"
  shows "filepath_Clean (p @ ''/'') = filepath_Clean p"
proof -
  have r: "(case p @ ''/'' of [] \<Rightarrow> False | c # _ \<Rightarrow> c = CHR ''/'')
             = (case p of [] \<Rightarrow> False | c # _ \<Rightarrow> c = CHR ''/'')"
    using assms by (cases p) simp_all
  have f: "foldl (Clean_step b) [] (split_path (p @ ''/'')) = foldl (Clean_step b) [] (split_path p)"
    for b by (simp add: split_path_trailing_slash Clean_step_def)
  show ?thesis by (simp only: filepath_Clean_def r f)
qed

lemma filepath_Join_empty_name:
  "root \<noteq> [] \<Longrightarrow> filepath_Join [root, []] = filepath_Clean root"
  using filepath_Clean_trailing_slash[of root] by simp

lemma DeleteDomain_tx_ok_queries:
  assumes ok: "DeleteDomain_tx svc env filters tx s0 = (Return None, s5)"
  shows "\<exists>domainID subDomains certsID.
           DeleteDomain_id env filters tx s0 = Inr domainID
           \<and> GetListOfSubDomains env domainID s0 = Inr subDomains
           \<and> GetCertificatesByDomain env domainID s0 = Inr certsID"
proof (cases "DeleteDomain_id env filters tx s0")
  case (Inl a)
  with ok show ?thesis by (simp add: DeleteDomain_tx_def)
next
  case did: (Inr domainID)
  show ?thesis
  proof (cases "GetListOfSubDomains env domainID s0")
    case (Inl a)
    with ok did show ?thesis by (simp add: DeleteDomain_tx_def)
  next
    case subs: (Inr subDomains)
    let ?ups = "DeleteDomain_updateDomains domainID subDomains (UserID filters) (time_Now env)"
    obtain r1 s1 where u1: "updateMany env (Some tx) ?ups s0 = (r1, s1)"
      by (cases "updateMany env (Some tx) ?ups s0")
    have r1: "r1 = None"
      using ok did subs u1 by (cases r1) (simp_all add: DeleteDomain_tx_def Let_def)
    have c: "GetCertificatesByDomain env domainID s1 = GetCertificatesByDomain env domainID s0"
      using updateMany_tx[OF u1] by (intro GetCertificatesByDomain_committed) simp
    show ?thesis
    proof (cases "GetCertificatesByDomain env domainID s1")
      case (Inl a)
      with ok did subs u1 r1 show ?thesis by (simp add: DeleteDomain_tx_def Let_def)
    next
      case (Inr certsID)
      with c have "GetCertificatesByDomain env domainID s0 = Inr certsID" by simp
      with did subs show ?thesis by blast
    qed
  qed
qed

text \<open>Counting the live rows of a domain name through the steps of a transaction.\<close>

lemma live_domain_update_row:
  "StringParameters e ''domain_name'' = None \<Longrightarrow> TimeParameters e ''deleted_at'' = None \<Longrightarrow>
     live_domain n (update_row e rid r) = live_domain n r"
  by (simp add: live_domain_def update_row_def merge_row_def map_add_def)

lemma filter_live_domain_update:
  assumes "StringParameters e ''domain_name'' = None" "TimeParameters e ''deleted_at'' = None"
  shows "length (filter (live_domain n) (map (update_row e rid) db)) = length (filter (live_domain n) db)"
  by (induction db) (simp_all add: live_domain_update_row[OF assms])

lemma InsertTx_view:
  assumes "InsertTx env (Some tx) e s = (Inr rid, s')" "pending s \<noteq> None"
  shows "visible (Some tx) s' = visible (Some tx) s @ [(rid, e)] \<and> pending s' \<noteq> None
         \<and> committed s' = committed s"
  using assms InsertTx_tx[OF assms(1)]
  by (auto simp: visible_def apply_writes_append)

lemma updateMany_single_view:
  assumes "updateMany env (Some tx) [(rid, e)] s = (None, s')" "pending s \<noteq> None"
  shows "visible (Some tx) s' = map (update_row e rid) (visible (Some tx) s) \<and> pending s' \<noteq> None
         \<and> committed s' = committed s"
  using assms updateMany_tx[OF assms(1)]
  by (auto simp: visible_def apply_writes_append simp del: updateMany.simps)

lemma Commit_view:
  assumes "Commit env s = (None, s')"
  shows "committed s' = visible (Some tx) s"
  using assms by (auto simp: Commit_def visible_def split: option.splits)

lemma CreateDomain_alt_view:
  "CreateDomain_alt env tx did u subs s = (None, s') \<Longrightarrow> pending s \<noteq> None \<Longrightarrow>
     length (filter (live_domain n) (visible (Some tx) s'))
       = length (filter (live_domain n) (visible (Some tx) s))
     \<and> pending s' \<noteq> None \<and> committed s' = committed s"
proof (induction subs arbitrary: s)
  case Nil
  then show ?case by simp
next
  case (Cons sub subs)
  let ?e = "NewEntity ''alternative_domains''
            [(''domain_id'', AString did), (''domain_name'', AString sub),
             (''created_by'', AString u)]"
  obtain r s1 where i: "InsertTx env (Some tx) ?e s = (r, s1)"
    by (cases "InsertTx env (Some tx) ?e s")
  from Cons.prems(1) i obtain rid where r: "r = Inr rid"
    by (cases r) (simp_all add: Let_def)
  with Cons.prems(1) i have rest: "CreateDomain_alt env tx did u subs s1 = (None, s')"
    by (simp add: Let_def)
  from InsertTx_view[of env tx ?e s rid s1] i r Cons.prems(2)
  have v: "visible (Some tx) s1 = visible (Some tx) s @ [(rid, ?e)]" "pending s1 \<noteq> None"
    "committed s1 = committed s" by auto
  from Cons.IH[OF rest v(2)] v show ?case by (simp add: live_domain_def)
qed

lemma safeWriteEvent_live_domain:
  "length (filter (live_domain n) (committed (snd (safeWriteEvent env u d t m s))))
     = length (filter (live_domain n) (committed s))"
  by (simp add: safeWriteEvent_def writeEvent_def InsertTx_def log_call_def Let_def live_domain_def
      split: option.splits)

lemma CreateDomain_tx_ok_count:
  assumes ok: "CreateDomain_tx env req cd cp tx s0 = ((did, None), s6)"
    and p0: "pending s0 = Some []"
  shows "length (filter (live_domain (Domain req)) (committed s6))
           = Suc (length (filter (live_domain (Domain req)) (committed s0)))"
proof -
  let ?n = "Domain req"
  let ?de = "NewEntity ''domains''
            [(''domain_name'', AString (Domain req)),
             (''dns_provider'', AString (DNSProvider req)),
             (''status'', AString ''pending''),
             (''verification_method'', AString (VerificationMethod req)),
             (''nginx_container_name'', AString (NginxContainerName req)),
             (''created_by'', AString (CreatedBy req)),
             (''auto_renew'', ABool (AutoRenew req))]"
  obtain r1 s1 where i1: "InsertTx env (Some tx) ?de s0 = (r1, s1)"
    by (cases "InsertTx env (Some tx) ?de s0")
  from ok i1 obtain domainID where r1: "r1 = Inr domainID"
    by (cases r1) (simp_all add: CreateDomain_tx_def Let_def)
  from InsertTx_view[of env tx ?de s0 domainID s1] i1 r1 p0
  have v1: "visible (Some tx) s1 = committed s0 @ [(domainID, ?de)]" "pending s1 \<noteq> None"
    by (auto simp: visible_def)
  have live: "live_domain ?n (domainID, ?de)"
    by (simp add: live_domain_def NewEntity_def)
  obtain r2 s2 where a2: "CreateDomain_alt env tx domainID (CreatedBy req) (AltDomains req) s1 = (r2, s2)"
    by (cases "CreateDomain_alt env tx domainID (CreatedBy req) (AltDomains req) s1")
  from ok i1 r1 a2 have r2: "r2 = None"
    by (cases r2) (simp_all add: CreateDomain_tx_def Let_def)
  from CreateDomain_alt_view[of env tx domainID "CreatedBy req" "AltDomains req" s1 s2 ?n] a2 r2 v1
  have v2: "length (filter (live_domain ?n) (visible (Some tx) s2))
              = length (filter (live_domain ?n) (committed s0 @ [(domainID, ?de)]))"
    "pending s2 \<noteq> None" by auto
  let ?ce = "NewEntity ''certificates''
                      [(''domain_id'', AString domainID),
                       (''issuer'', AString (''Let'' @ [CHR 0x27] @ ''s Encrypt'')),
                       (''cert_path'', AString (pCert cp)),
                       (''key_path'', AString (pKey cp)),
                       (''chain_path'', AString (pChain cp)),
                       (''created_by'', AString (CreatedBy req)),
                       (''valid_from'', ATime (ValidFrom cd)),
                       (''valid_to'', ATime (ValidTo cd))]"
  obtain r3 s3 where i3: "InsertTx env (Some tx) ?ce s2 = (r3, s3)"
    by (cases "InsertTx env (Some tx) ?ce s2")
  from ok i1 r1 a2 r2 i3 obtain cid where r3: "r3 = Inr cid"
    by (cases r3) (simp_all add: CreateDomain_tx_def Let_def)
  from InsertTx_view[of env tx ?ce s2 cid s3] i3 r3 v2
  have v3: "visible (Some tx) s3 = visible (Some tx) s2 @ [(cid, ?ce)]" "pending s3 \<noteq> None"
    by auto
  let ?ae = "NewEntity ''domains''
                                  [(''status'', AString ''active''),
                                   (''updated_by'', AString (CreatedBy req))]"
  obtain r4 s4 where u4: "updateMany env (Some tx) [(domainID, ?ae)] s3 = (r4, s4)"
    by (cases "updateMany env (Some tx) [(domainID, ?ae)] s3")
  from ok i1 r1 a2 r2 i3 r3 u4 have r4: "r4 = None"
    by (cases r4) (simp_all add: CreateDomain_tx_def Let_def del: updateMany.simps)
  from updateMany_single_view[of env tx domainID ?ae s3 s4] u4 r4 v3
  have v4: "visible (Some tx) s4 = map (update_row ?ae domainID) (visible (Some tx) s3)"
    by auto
  obtain r5 s5 where c5: "Commit env s4 = (r5, s5)" by (cases "Commit env s4")
  from ok i1 r1 a2 r2 i3 r3 u4 r4 c5 have r5: "r5 = None"
    by (cases r5) (simp_all add: CreateDomain_tx_def Let_def del: updateMany.simps)
  from Commit_view[of env s4 s5 tx] c5 r5 have v5: "committed s5 = visible (Some tx) s4" by simp
  have s6: "s6 = snd (safeWriteEvent env (CreatedBy req) domainID ''created''
                                      ''Domain and certificate created successfully'' s5)"
    using ok i1 r1 a2 r2 i3 r3 u4 r4 c5 r5
    by (auto simp add: CreateDomain_tx_def Let_def simp del: updateMany.simps)
  have "length (filter (live_domain ?n) (committed s5))
          = length (filter (live_domain ?n) (visible (Some tx) s3))"
    unfolding v5 v4 by (rule filter_live_domain_update) (simp_all add: NewEntity_def)
  also have "\<dots> = length (filter (live_domain ?n) (visible (Some tx) s2))"
    unfolding v3 by (simp add: live_domain_def)
  also have "\<dots> = Suc (length (filter (live_domain ?n) (committed s0)))"
    unfolding v2 using live by simp
  finally show ?thesis
    unfolding s6 safeWriteEvent_live_domain .
qed


lemma CreateCertificate_committed:
  "CreateCertificate env c d san s = (r, s') \<Longrightarrow> committed s' = committed s \<and> pending s' = pending s"
  by (auto simp: CreateCertificate_def log_call_def split: option.splits)

lemma fs_committed [simp]:
  "committed (snd (MkdirAll env p s)) = committed s"
  "committed (snd (WriteFile env p s)) = committed s"
  "pending (snd (MkdirAll env p s)) = pending s"
  "pending (snd (WriteFile env p s)) = pending s"
  by (simp_all add: MkdirAll_def WriteFile_def split: option.splits)

lemma SaveCertificateFiles_committed:
  "SaveCertificateFiles svc env d cd s = (r, s') \<Longrightarrow> committed s' = committed s"
proof -
  have m: "committed b = committed s0" if "MkdirAll env p s0 = (a, b)" for a b p s0
    using fs_committed(1)[of env p s0] that by simp
  have w: "committed b = committed s0" if "WriteFile env p s0 = (a, b)" for a b p s0
    using fs_committed(2)[of env p s0] that by simp
  show "SaveCertificateFiles svc env d cd s = (r, s') \<Longrightarrow> committed s' = committed s"
    unfolding SaveCertificateFiles_def Let_def
    by (auto simp: log_call_def simp del: filepath_Join.simps
        split: prod.splits option.splits if_splits dest!: m w)
qed

lemma CreateDomain_ok_count:
  assumes ok: "fst (CreateDomain svc env req s) = Return (did, None)"
  shows "IsDomainExists env (Domain req) s = Inr False
         \<and> length (filter (live_domain (Domain req)) (committed (snd (CreateDomain svc env req s))))
             = Suc (length (filter (live_domain (Domain req)) (committed s)))"
proof -
  have ne: "IsDomainExists env (Domain req) s = Inr False"
    using ok by (cases "IsDomainExists env (Domain req) s") (auto simp: CreateDomain_def)
  obtain c where sel: "SelectClientByName svc (DNSProvider req) = Return (Inr c)"
    using ok ne
    by (cases "SelectClientByName svc (DNSProvider req)")
       (auto simp: CreateDomain_def split: sum.splits)
  obtain r1 s1 where cc: "CreateCertificate env (Some c) (Domain req) (AltDomains req) s = (r1, s1)"
    by (cases "CreateCertificate env (Some c) (Domain req) (AltDomains req) s")
  obtain cd where r1: "r1 = Return (Inr cd)"
    using ok ne sel cc by (cases r1) (auto simp: CreateDomain_def split: sum.splits)
  obtain r2 s2 where sv: "SaveCertificateFiles svc env (Domain req) cd s1 = (r2, s2)"
    by (cases "SaveCertificateFiles svc env (Domain req) cd s1")
  obtain cp where r2: "r2 = Inr cp"
    using ok ne sel cc r1 sv by (cases r2) (auto simp: CreateDomain_def)
  obtain r3 s3 where b: "BeginTx env s2 = (r3, s3)" by (cases "BeginTx env s2")
  from BeginTx_cases[OF b] ok ne sel cc r1 sv r2 b
  have r3: "r3 = Inr TxHandle" "s3 = s2\<lparr>pending := Some []\<rparr>"
    by (auto simp: CreateDomain_def)
  obtain x s6 where t: "CreateDomain_tx env req cd cp TxHandle s3 = (x, s6)"
    by (cases "CreateDomain_tx env req cd cp TxHandle s3")
  have res: "CreateDomain svc env req s
               = (case CreateDomain_deferred env req (x, s6) of (r, s4) \<Rightarrow> (Return r, s4))"
    using ne sel cc r1 sv r2 b r3 t by (simp add: CreateDomain_def)
  obtain y s7 where d: "CreateDomain_deferred env req (x, s6) = (y, s7)"
    by (cases "CreateDomain_deferred env req (x, s6)")
  have "y = x" by (metis fst_CreateDomain_deferred fst_conv d)
  moreover have "y = (did, None)" using ok unfolding res d by simp
  ultimately have x: "x = (did, None)" by simp
  have fin: "snd (CreateDomain svc env req s) = s6"
    unfolding res x by (simp add: CreateDomain_deferred_def)
  have "committed s3 = committed s"
    using CreateCertificate_committed[OF cc] SaveCertificateFiles_committed[OF sv] r3 by simp
  moreover have "pending s3 = Some []" using r3 by simp
  ultimately show ?thesis
    using CreateDomain_tx_ok_count[of env req cd cp TxHandle s3 did s6] t x ne fin by simp
qed

section \<open>Properties\<close>

subsection \<open>Provider selection\<close>

lemma SelectClientByName_loop_find:
  "SelectClientByName_loop cs name =
     (case find (\<lambda>c. Name c = name) cs of
        None \<Rightarrow> Inl (Msg ''client not found'') | Some c \<Rightarrow> Inr c)"
  by (induction cs) auto

lemma find_SomeD: "find P xs = Some x \<Longrightarrow> x \<in> set xs \<and> P x"
  by (induction xs) (auto split: if_splits)

text \<open>
  Claim C8. With a non-empty registry, the sentinel name \<open>no\<close> resolves to the first
  registered client. Any other name resolves to the first client of the registry whose
  \<open>Name\<close> is exactly that name; a client that is returned is registered and has that
  name; and the result is the error \<open>client not found\<close> exactly when no registered
  client has that name.
\<close>

theorem SelectClientByName_resolves:
  assumes "client s \<noteq> []"
  shows "SelectClientByName s ''no'' = Return (Inr (hd (client s))) \<and>
         (name \<noteq> ''no'' \<longrightarrow>
            SelectClientByName s name =
              (case find (\<lambda>c. Name c = name) (client s) of
                 None \<Rightarrow> Return (Inl (Msg ''client not found''))
               | Some c \<Rightarrow> Return (Inr c))) \<and>
         (name \<noteq> ''no'' \<longrightarrow>
            (\<forall>c. SelectClientByName s name = Return (Inr c)
                   \<longrightarrow> c \<in> set (client s) \<and> Name c = name)) \<and>
         (name \<noteq> ''no'' \<longrightarrow>
            (SelectClientByName s name = Return (Inl (Msg ''client not found''))
               \<longleftrightarrow> (\<forall>c \<in> set (client s). Name c \<noteq> name)))"
proof -
  have first: "SelectClientByName s ''no'' = Return (Inr (hd (client s)))"
    using assms by (cases "client s") (simp_all add: SelectClientByName_def)
  have other: "SelectClientByName s name =
              (case find (\<lambda>c. Name c = name) (client s) of
                 None \<Rightarrow> Return (Inl (Msg ''client not found''))
               | Some c \<Rightarrow> Return (Inr c))" if "name \<noteq> ''no''"
    using that by (simp add: SelectClientByName_def SelectClientByName_loop_find split: option.splits)
  have hit: "c \<in> set (client s) \<and> Name c = name"
    if "name \<noteq> ''no''" "SelectClientByName s name = Return (Inr c)" for c
    using that other[OF that(1)] by (auto split: option.splits dest: find_SomeD)
  have miss: "(SelectClientByName s name = Return (Inl (Msg ''client not found'')))
               \<longleftrightarrow> (\<forall>c \<in> set (client s). Name c \<noteq> name)" if "name \<noteq> ''no''"
    using other[OF that] by (auto split: option.splits simp: find_None_iff dest: find_SomeD)
  show ?thesis using first other hit miss by blast
qed

theorem SelectClientByName_resolves_witness:
  "client ex_service \<noteq> [] \<and>
   SelectClientByName ex_service ''no''
     = Return (Inr \<lparr>Name = ''cloudflare'', URL = ''https://api.cloudflare.com'', Key = ''k1''\<rparr>) \<and>
   SelectClientByName ex_service ''hetzner''
     = Return (Inr \<lparr>Name = ''hetzner'', URL = ''https://dns.hetzner.com'', Key = ''k2''\<rparr>) \<and>
   SelectClientByName ex_service ''Hetzner'' = Return (Inl (Msg ''client not found''))"
proof -
  have ne: "client ex_service \<noteq> []" by (simp add: ex_service_def)
  show ?thesis
    using ne SelectClientByName_resolves [OF ne, of "''hetzner''"]
      SelectClientByName_resolves [OF ne, of "''Hetzner''"]
    by (simp add: ex_service_def)
qed

subsection \<open>Pagination\<close>

text \<open>
  What \<open>GetDomains\<close> computes when nothing overflows: the quotient of
  \<open>totalElements + page - 1\<close> by the page size.
\<close>

lemma GetDomains_totalPages:
  assumes r: "GetDomains conv env filters s = Return (Inr resp)"
    and t: "0 \<le> TotalElements resp" and p: "1 \<le> Page filters" and ps: "1 \<le> PageSize filters"
    and bound: "TotalElements resp + Page filters < 2 ^ 63"
  shows "TotalPages resp = (TotalElements resp + Page filters - 1) div PageSize filters
       \<and> HasNext resp = (Page filters < TotalPages resp)
       \<and> HasPrev resp = (1 < Page filters)"
proof -
  obtain n where c: "GetDomainsCount env
          \<lparr>Limit = Some (PageSize filters),
           Offset = Some (wrap64 (wrap64 (Page filters - 1) * PageSize filters)),
           fDomainName = gDomainName filters, fStatus = gStatus filters,
           fUserID = gUserID filters\<rparr> (committed s) = Inr n"
    using r ps by (auto simp: GetDomains_def Let_def split: sum.splits)
  have resp: "TotalElements resp = n
     \<and> TotalPages resp = go_quo (wrap64 (wrap64 (n + Page filters) - 1)) (PageSize filters)
     \<and> HasNext resp = (Page filters < TotalPages resp) \<and> HasPrev resp = (1 < Page filters)"
    using r ps c by (auto simp: GetDomains_def Let_def split: sum.splits if_splits)
  have w: "wrap64 x = x" if "0 \<le> x" "x < 2 ^ 63" for x
  proof -
    have "(x + 2 ^ 63) mod 2 ^ 64 = x + 2 ^ 63"
      using that by (intro mod_pos_pos_trivial) auto
    then show ?thesis by (simp add: wrap64_def)
  qed
  have n: "0 \<le> n" "n + Page filters < 2 ^ 63" using resp t bound by auto
  have a: "wrap64 (wrap64 (n + Page filters) - 1) = n + Page filters - 1"
    using n p by (simp add: w)
  have d: "(n + Page filters - 1) div PageSize filters \<le> n + Page filters - 1"
    using ps n p zdiv_mono2[of "n + Page filters - 1" 1 "PageSize filters"] by simp
  have d0: "0 \<le> (n + Page filters - 1) div PageSize filters"
    using ps n p by (intro pos_imp_zdiv_nonneg_iff[THEN iffD2]) auto
  have q: "go_quo (n + Page filters - 1) (PageSize filters) = (n + Page filters - 1) div PageSize filters"
    using ps n p d d0 by (simp add: go_quo_def w)
  show ?thesis using resp a q by simp
qed

text \<open>
  Claim C4. With three elements, page 1 and page size 2, \<open>GetDomains\<close> reports one
  page in total and no next page, where the ceiling of 3 / 2 is 2: the numerator of
  \<open>totalPages\<close> adds \<open>filters.Page - 1\<close> where the ceiling needs
  \<open>filters.PageSize - 1\<close>.
\<close>

theorem GetDomains_totalPages_first_page:
  "GetDomains conv ex_env
      \<lparr>Page = 1, PageSize = 2, gUserID = [], gStatus = [], gDomainName = []\<rparr> ex_state
     = Return (Inr \<lparr>TotalPages = 1, rPage = 1, rPageSize = 2, TotalElements = 3,
                    HasNext = False, HasPrev = False, NextPage = 0, PrevPage = 0, Domains = []\<rparr>)
   \<and> ceil_div 3 2 = 2"
  by (simp add: GetDomains_def ex_env_def ex_state_def wrap64_def go_quo_def ceil_div_def Let_def)

subsection \<open>The renewal sweep\<close>

text \<open>
  Claim C5. In the sweep, a domain whose status is \<open>deleted\<close>, or whose auto-renew
  flag is off, or whose certificate is more than 30 days from its end at the time of
  the sweep, is passed over: the sweep goes on as if the domain were not listed, and a
  sweep over that domain alone leaves the state as it was, so no transaction is begun,
  the certificate authority is not called and nothing is written to the database.
\<close>

theorem RenewExpiringCertificates_skip:
  assumes "Status (Details d) = ''deleted'' \<or> \<not> dAutoRenew (Details d)
             \<or> tnow < CertValidTo (Details d) - 30 * 24 * time_Hour"
  shows "RenewExpiringCertificates_loop svc env tnow (d # ds) s
           = RenewExpiringCertificates_loop svc env tnow ds s
         \<and> RenewExpiringCertificates_loop svc env tnow [d] s = (Return (), s)"
  using assms by (auto simp: Let_def)

theorem RenewExpiringCertificates_skip_witness:
  "Status (Details ex_domain_deleted) = ''deleted''
   \<and> RenewExpiringCertificates_loop ex_service ex_env 7000 [ex_domain_deleted] ex_state
       = (Return (), ex_state)
   \<and> (0::int) < CertValidTo (Details (ex_domain\<lparr>Details := (Details ex_domain)\<lparr>CertValidTo := 31 * 24 * time_Hour\<rparr>\<rparr>))
           - 30 * 24 * time_Hour
   \<and> RenewExpiringCertificates_loop ex_service ex_env 0
        [ex_domain\<lparr>Details := (Details ex_domain)\<lparr>CertValidTo := 31 * 24 * time_Hour\<rparr>\<rparr>] ex_state
       = (Return (), ex_state)"
proof -
  have a: "Status (Details ex_domain_deleted) = ''deleted''"
    by (simp add: ex_domain_deleted_def ex_domain_def)
  have b: "(0::int) < CertValidTo (Details (ex_domain\<lparr>Details := (Details ex_domain)\<lparr>CertValidTo := 31 * 24 * time_Hour\<rparr>\<rparr>))
           - 30 * 24 * time_Hour"
    by (simp add: time_Hour_def)
  show ?thesis
    using a b
      RenewExpiringCertificates_skip [of ex_domain_deleted 7000 ex_service ex_env "[]" ex_state]
      RenewExpiringCertificates_skip [of "ex_domain\<lparr>Details := (Details ex_domain)\<lparr>CertValidTo := 31 * 24 * time_Hour\<rparr>\<rparr>" 0 ex_service ex_env "[]" ex_state]
    by blast
qed

text \<open>
  Claim C10. \<open>RenewDomainCertificate\<close> does not look at the error of
  \<open>SelectClientByName\<close>. For a domain whose provider name is not the sentinel and is
  not registered, the selection returns the error \<open>client not found\<close> with a nil
  client; once the transaction has been begun, the call of \<open>CreateCertificate\<close> on
  that nil client panics with a nil dereference, and the renewal ends in that panic
  (after the deferred rollback) instead of returning an error.
\<close>

theorem RenewDomainCertificate_unknown_provider:
  assumes "fault env OpBeginTx = None"
    and "dDNSProvider (Details d) \<noteq> ''no''"
    and "dDNSProvider (Details d) \<notin> Name ` set (client svc)"
  shows "SelectClientByName svc (dDNSProvider (Details d)) = Return (Inl (Msg ''client not found''))
         \<and> RenewDomainCertificate svc env d s = (Panic NilPointerDereference, s\<lparr>pending := None\<rparr>)"
proof -
  have "find (\<lambda>c. Name c = dDNSProvider (Details d)) (client svc) = None"
    using assms(3) by (force simp: find_None_iff)
  then have sel: "SelectClientByName svc (dDNSProvider (Details d)) = Return (Inl (Msg ''client not found''))"
    using assms(2) by (simp add: SelectClientByName_def SelectClientByName_loop_find)
  show ?thesis
    using sel assms(1)
    by (simp add: RenewDomainCertificate_def RenewDomainCertificate_tx_def BeginTx_def
        CreateCertificate_def Rollback_def)
qed

theorem RenewDomainCertificate_unknown_provider_witness:
  "fault ex_env OpBeginTx = None
   \<and> dDNSProvider (Details ex_domain_route53) \<noteq> ''no''
   \<and> dDNSProvider (Details ex_domain_route53) \<notin> Name ` set (client ex_service)
   \<and> RenewDomainCertificate ex_service ex_env ex_domain_route53 ex_state
       = (Panic NilPointerDereference, ex_state\<lparr>pending := None\<rparr>)"
proof -
  have a: "fault ex_env OpBeginTx = None" by (simp add: ex_env_def)
  have b: "dDNSProvider (Details ex_domain_route53) \<noteq> ''no''"
    by (simp add: ex_domain_route53_def ex_domain_def)
  have c: "dDNSProvider (Details ex_domain_route53) \<notin> Name ` set (client ex_service)"
    by (simp add: ex_domain_route53_def ex_domain_def ex_service_def)
  show ?thesis
    using a b c RenewDomainCertificate_unknown_provider [OF a b c, of ex_state] by blast
qed

subsection \<open>Delete\<close>

text \<open>
  Claim C3, as amended. Take a delete that returns nil, the domain id it works on (the
  id of the request, or the one looked up by name), the ids of the domain's live
  alternative domains and the id of its certificate (empty when there is none), the
  domain id not being the id of one of those alternative-domain rows. Then the
  committed database after the delete is the one before it with the rows marked by
  \<open>mark_deleted\<close>, followed by one new row, the event of type \<open>deleted\<close> for that
  domain: the domain row and every one of those alternative-domain rows get status
  \<open>deleted\<close>, \<open>deleted_by\<close> and the timestamp in \<open>deleted_at\<close>; the certificate
  row gets \<open>deleted_by\<close> and the same timestamp in \<open>deleted_at\<close> and keeps the status
  it had; every other row is as before. A delete that returns an error leaves the
  committed database as it was.
\<close>

theorem DeleteDomain_marks_deleted:
  "(fst (DeleteDomain svc env filters s) = Return None
      \<and> DeleteDomain_id env filters TxHandle (s\<lparr>pending := Some []\<rparr>) = Inr domainID
      \<and> GetListOfSubDomains env domainID s = Inr subDomains
      \<and> GetCertificatesByDomain env domainID s = Inr certsID
      \<and> domainID \<notin> set subDomains
    \<longrightarrow> (\<exists>rid ev.
           committed (snd (DeleteDomain svc env filters s))
             = map (mark_deleted domainID subDomains certsID (UserID filters) (time_Now env))
                 (committed s) @ [(rid, ev)]
           \<and> EntityName ev = ''events''
           \<and> StringParameters ev ''event_type'' = Some ''deleted''
           \<and> StringParameters ev ''domain_id'' = Some domainID))
   \<and> (fst (DeleteDomain svc env filters s) = Return (Some err)
        \<longrightarrow> committed (snd (DeleteDomain svc env filters s)) = committed s)"
proof (intro conjI impI)
  assume a: "fst (DeleteDomain svc env filters s) = Return None
      \<and> DeleteDomain_id env filters TxHandle (s\<lparr>pending := Some []\<rparr>) = Inr domainID
      \<and> GetListOfSubDomains env domainID s = Inr subDomains
      \<and> GetCertificatesByDomain env domainID s = Inr certsID
      \<and> domainID \<notin> set subDomains"
  let ?s0 = "s\<lparr>pending := Some []\<rparr>"
  let ?D = "mark_deleted domainID subDomains certsID (UserID filters) (time_Now env)"
  let ?E = "mark_deleted domainID subDomains [] (UserID filters) (time_Now env)"
  obtain r0 s0 where b: "BeginTx env s = (r0, s0)" by (cases "BeginTx env s")
  from BeginTx_cases[OF b] a b have b0: "r0 = Inr TxHandle" "s0 = ?s0"
    by (auto simp: DeleteDomain_def)
  obtain s5 where t: "DeleteDomain_tx svc env filters TxHandle ?s0 = (Return None, s5)"
    and s5: "snd (DeleteDomain svc env filters s) = s5"
    using a b b0
    by (cases "DeleteDomain_tx svc env filters TxHandle ?s0")
       (auto simp: DeleteDomain_def DeleteDomain_deferred_def split: result.splits)
  have subs: "GetListOfSubDomains env domainID ?s0 = Inr subDomains"
    using a by simp
  have cert: "GetCertificatesByDomain env domainID ?s0 = Inr certsID"
    using a GetCertificatesByDomain_committed[of ?s0 s] by simp
  from DeleteDomain_tx_ok[OF t _ _ subs cert] a obtain rid ev where
    c: "committed s5 =
           apply_writes
             (map (\<lambda>(rid, e). WUpdate e rid)
                  (DeleteDomain_updateDomains domainID subDomains (UserID filters) (time_Now env))
              @ (if certsID \<noteq> [] then
                   [WUpdate (NewEntity ''certificates''
                               [(''deleted_by'', AString (UserID filters)),
                                (''updated_by'', AString (UserID filters)),
                                (''deleted_at'', ATime (time_Now env))]) certsID]
                 else [])
              @ [WInsert rid ev]) (committed s)"
    and ev: "EntityName ev = ''events''" "StringParameters ev ''domain_id'' = Some domainID"
          "StringParameters ev ''event_type'' = Some ''deleted''"
    by auto
  have rows: "fold (\<lambda>(rid, e). update_row e rid)
           (DeleteDomain_updateDomains domainID subDomains (UserID filters) (time_Now env)) = ?E"
    using a by (intro ext DeleteDomain_updateDomains_row) simp
  have "committed s5 = map ?D (committed s) @ [(rid, ev)]"
  proof (cases "certsID \<noteq> []")
    case True
    have comp: "(\<lambda>r. update_row (NewEntity ''certificates''
                               [(''deleted_by'', AString (UserID filters)),
                                (''updated_by'', AString (UserID filters)),
                                (''deleted_at'', ATime (time_Now env))]) certsID (?E r)) = ?D"
      by (rule ext, rule mark_deleted_certificate[OF True])
    have "committed s5 = map (\<lambda>r. update_row (NewEntity ''certificates''
                               [(''deleted_by'', AString (UserID filters)),
                                (''updated_by'', AString (UserID filters)),
                                (''deleted_at'', ATime (time_Now env))]) certsID (?E r)) (committed s)
                           @ [(rid, ev)]"
      using c True by (simp add: apply_writes_append apply_writes_updates rows comp_def apply_writes_Cons)
    then show ?thesis unfolding comp .
  next
    case False
    then have "?D = ?E" by simp
    then show ?thesis
      using c False by (simp add: apply_writes_append apply_writes_updates rows apply_writes_Cons)
  qed
  then show "\<exists>rid ev.
           committed (snd (DeleteDomain svc env filters s))
             = map ?D (committed s) @ [(rid, ev)]
           \<and> EntityName ev = ''events''
           \<and> StringParameters ev ''event_type'' = Some ''deleted''
           \<and> StringParameters ev ''domain_id'' = Some domainID"
    using ev s5 by blast
next
  assume "fst (DeleteDomain svc env filters s) = Return (Some err)"
  then show "committed (snd (DeleteDomain svc env filters s)) = committed s"
    by (rule DeleteDomain_error_frame)
qed

theorem DeleteDomain_marks_deleted_witness:
  "fst (DeleteDomain ex_service ex_env ex_delete_by_name ex_state) = Return None
   \<and> DeleteDomain_id ex_env ex_delete_by_name TxHandle (ex_state\<lparr>pending := Some []\<rparr>) = Inr ''d1''
   \<and> GetListOfSubDomains ex_env ''d1'' ex_state = Inr [''a1'']
   \<and> GetCertificatesByDomain ex_env ''d1'' ex_state = Inr ''c1''
   \<and> ''d1'' \<notin> set [''a1'']
   \<and> (\<exists>rid ev.
         committed (snd (DeleteDomain ex_service ex_env ex_delete_by_name ex_state))
           = map (mark_deleted ''d1'' [''a1''] ''c1'' (UserID ex_delete_by_name) (time_Now ex_env))
               (committed ex_state) @ [(rid, ev)]
         \<and> EntityName ev = ''events''
         \<and> StringParameters ev ''event_type'' = Some ''deleted''
         \<and> StringParameters ev ''domain_id'' = Some ''d1'')"
proof -
  have h: "fst (DeleteDomain ex_service ex_env ex_delete_by_name ex_state) = Return None
   \<and> DeleteDomain_id ex_env ex_delete_by_name TxHandle (ex_state\<lparr>pending := Some []\<rparr>) = Inr ''d1''
   \<and> GetListOfSubDomains ex_env ''d1'' ex_state = Inr [''a1'']
   \<and> GetCertificatesByDomain ex_env ''d1'' ex_state = Inr ''c1''
   \<and> ''d1'' \<notin> set [''a1'']"
    by (simp add: delete_defs repo_defs fs_defs ex_defs Let_def)
  from DeleteDomain_marks_deleted [of ex_service ex_env ex_delete_by_name ex_state
      "''d1''" "[''a1'']" "''c1''"] h
  show ?thesis by blast
qed

text \<open>
  Claim C3 as stated fails on the certificate: after the delete by name of
  \<open>example.com\<close>, the domain row has status \<open>deleted\<close> and the certificate row has
  the same \<open>deleted_at\<close>, but the certificate's status is still \<open>active\<close>. The
  entity that \<open>DeleteDomain\<close> builds for the certificate has no \<open>status\<close> column.
\<close>

theorem DeleteDomain_certificate_status_counterexample:
  "fst (DeleteDomain ex_service ex_env ex_delete_by_name ex_state) = Return None
   \<and> string_column (committed (snd (DeleteDomain ex_service ex_env ex_delete_by_name ex_state)))
        ''certificates'' ''c1'' ''status'' = Some ''active''
   \<and> time_column (committed (snd (DeleteDomain ex_service ex_env ex_delete_by_name ex_state)))
        ''certificates'' ''c1'' ''deleted_at'' = Some 7000
   \<and> string_column (committed (snd (DeleteDomain ex_service ex_env ex_delete_by_name ex_state)))
        ''domains'' ''d1'' ''status'' = Some ''deleted''
   \<and> time_column (committed (snd (DeleteDomain ex_service ex_env ex_delete_by_name ex_state)))
        ''domains'' ''d1'' ''deleted_at'' = Some 7000"
  by (simp add: delete_defs repo_defs fs_defs ex_defs Let_def string_column_def time_column_def get_row_def)

subsection \<open>Renewal when the issuance fails\<close>

text \<open>
  Whatever the domain: when the transaction begins, the provider resolves and the
  certificate authority refuses, nothing of what \<open>RenewDomainCertificate\<close> wrote
  reaches the committed database, and the transaction is closed by the rollback.
\<close>

lemma RenewDomainCertificate_issuance_failure:
  assumes b: "fault env OpBeginTx = None"
    and sel: "SelectClientByName svc (dDNSProvider (Details d)) = Return (Inr c)"
    and iss: "acme env (Name c) (dDomainName d) (if length (Sub d) > 0 then Sub d else []) = Inl e"
  shows "committed (snd (RenewDomainCertificate svc env d s)) = committed s
       \<and> pending (snd (RenewDomainCertificate svc env d s)) = None
       \<and> (\<exists>err. fst (RenewDomainCertificate svc env d s)
                   = Return (Some (Wrap ''failed to create new certificate'' err)))"
proof -
  let ?s0 = "s\<lparr>pending := Some []\<rparr>"
  let ?s1 = "log_call (CallCreateCertificate (Name c) (dDomainName d)
                (if length (Sub d) > 0 then Sub d else [])) ?s0"
  obtain err2 s2 where u: "updateMany env (Some TxHandle) (update_failed_data d) ?s1 = (err2, s2)"
    by (cases "updateMany env (Some TxHandle) (update_failed_data d) ?s1")
  obtain err3 s3 where w: "writeEvent env (Some TxHandle) (ID d) ''failed''
                            (''Certificate issuance failed: '' @ fmt_v err2) ''system-renewal'' s2 = (err3, s3)"
    by (cases "writeEvent env (Some TxHandle) (ID d) ''failed''
                            (''Certificate issuance failed: '' @ fmt_v err2) ''system-renewal'' s2")
  have t: "RenewDomainCertificate_tx svc env d TxHandle ?s0
             = (Return (Some (Wrap ''failed to create new certificate'' err3)), Some e, s3)"
    using sel iss u w
    by (simp add: RenewDomainCertificate_tx_def CreateCertificate_def Let_def del: updateMany.simps)
  have r: "RenewDomainCertificate svc env d s
             = (Return (Some (Wrap ''failed to create new certificate'' err3)), snd (Rollback env s3))"
    using b t by (simp add: RenewDomainCertificate_def BeginTx_def)
  have "committed s3 = committed s"
    using updateMany_tx[OF u] writeEvent_tx[OF w] by (simp add: log_call_def)
  moreover have "pending (snd (Rollback env s3)) = None"
    by (simp add: Rollback_def split: option.splits)
  ultimately show ?thesis unfolding r by simp
qed

text \<open>
  Claim C1. The certificate authority refuses the renewal of \<open>example.com\<close>.
  \<open>RenewDomainCertificate\<close> writes the status \<open>update_failed\<close> and the \<open>failed\<close>
  event into its transaction and returns; the deferred function then finds the
  function's \<open>err\<close> set (the issuance error) and rolls the transaction back. After
  the call the committed database is the one before it: the domain is still \<open>active\<close>
  and there is no event. The error returned wraps the result of the event insert (nil
  here), not the issuance error.
\<close>

theorem RenewDomainCertificate_failed_issuance_rolled_back:
  "fst (RenewDomainCertificate ex_service ex_env_no_issue ex_domain ex_state)
     = Return (Some (Wrap ''failed to create new certificate'' None))
   \<and> committed (snd (RenewDomainCertificate ex_service ex_env_no_issue ex_domain ex_state))
       = committed ex_state
   \<and> string_column (committed (snd (RenewDomainCertificate ex_service ex_env_no_issue ex_domain ex_state)))
        ''domains'' ''d1'' ''status'' = Some ''active''
   \<and> rows_of ''events'' (committed (snd (RenewDomainCertificate ex_service ex_env_no_issue ex_domain ex_state))) = []
   \<and> pending (snd (RenewDomainCertificate ex_service ex_env_no_issue ex_domain ex_state)) = None"
  by (simp add: renew_defs repo_defs ex_defs string_column_def get_row_def rows_of_def Let_def)

subsection \<open>Event writes and the result of a workflow\<close>

text \<open>
  Claim C2, as amended. Whatever the inserts into the event table do, \<open>CreateDomain\<close>
  returns the same results: its events are written with \<open>safeWriteEvent\<close>, whose
  error is dropped. In \<open>DeleteDomain\<close> and in \<open>RenewDomainCertificate\<close> the event is
  inserted through the transaction and its error is returned: when the event inserts
  fail, \<open>DeleteDomain\<close> returns an error and commits nothing, and
  \<open>RenewDomainCertificate\<close> does not return nil.
\<close>

theorem event_write_failure_and_result:
  "fst (CreateDomain svc (with_event_fault f env) req s) = fst (CreateDomain svc env req s)
   \<and> (\<exists>err. fst (DeleteDomain svc (with_event_fault (\<lambda>ev. Some e) env) filters s) = Return (Some err))
   \<and> committed (snd (DeleteDomain svc (with_event_fault (\<lambda>ev. Some e) env) filters s)) = committed s
   \<and> fst (RenewDomainCertificate svc (with_event_fault (\<lambda>ev. Some e) env) d s) \<noteq> Return None"
proof -
  obtain err where
    "fst (DeleteDomain svc (with_event_fault (\<lambda>ev. Some e) env) filters s) = Return (Some err)"
    using DeleteDomain_failing_events by blast
  then show ?thesis
    using fst_CreateDomain_wef RenewDomainCertificate_failing_events DeleteDomain_error_frame
    by blast
qed


text \<open>
  Claim C2 as stated fails for \<open>Delete\<close>: the same delete returns nil when the event
  insert succeeds, and the error \<open>error inserting event\<close> when only the event insert
  fails; in the second run the domain is still \<open>active\<close>.
\<close>

theorem DeleteDomain_event_fault_counterexample:
  "fst (DeleteDomain ex_service ex_env ex_delete_by_name ex_state) = Return None
   \<and> fst (DeleteDomain ex_service (with_event_fault (\<lambda>e. Some (Msg ''events: disk full'')) ex_env)
            ex_delete_by_name ex_state)
       = Return (Some (Wrap ''error inserting event''
                   (Some (Wrap ''failed to write event'' (Some (Msg ''events: disk full''))))))
   \<and> string_column (committed (snd (DeleteDomain ex_service
            (with_event_fault (\<lambda>e. Some (Msg ''events: disk full'')) ex_env)
            ex_delete_by_name ex_state))) ''domains'' ''d1'' ''status'' = Some ''active''"
  by (simp add: delete_defs repo_defs fs_defs ex_defs with_event_fault_def Let_def
      string_column_def get_row_def)

subsection \<open>The clean-up after a delete by id\<close>

text \<open>
  Claim C9. A delete that is given a domain id and no domain name, and that returns
  nil, starts its clean-up with the empty name: \<open>DeleteCertificateFiles\<close> is called
  with the empty string, the path it joins from the storage directory and that name is
  the (cleaned) storage directory itself, and, the directory being there and
  \<open>os.RemoveAll\<close> not failing, every path inside the storage directory is gone
  afterwards: the directories of all domains and the ACME account key with them.
\<close>

theorem DeleteDomain_by_id_removes_storage_root:
  assumes name: "DomainName filters = []"
    and ok: "fst (DeleteDomain svc env filters s) = Return None"
    and root: "StorageDir svc \<noteq> []"
    and ex: "filepath_Clean (StorageDir svc) \<in> set (files s)"
    and rm: "fault env (OpRemoveAll (filepath_Clean (StorageDir svc))) = None"
  shows "filepath_Join [StorageDir svc, DomainName filters] = filepath_Clean (StorageDir svc)
       \<and> last (calls (snd (DeleteDomain svc env filters s))) = CallDeleteCertificateFiles []
       \<and> files (snd (DeleteDomain svc env filters s))
           = filter (\<lambda>q. \<not> path_inside (filepath_Clean (StorageDir svc)) q) (files s)
       \<and> (\<forall>q. path_inside (filepath_Clean (StorageDir svc)) q
             \<longrightarrow> q \<notin> set (files (snd (DeleteDomain svc env filters s))))"
proof -
  let ?s0 = "s\<lparr>pending := Some []\<rparr>"
  let ?root = "filepath_Clean (StorageDir svc)"
  have j: "filepath_Join [StorageDir svc, []] = ?root"
    using root by (rule filepath_Join_empty_name)
  obtain r0 s0 where b: "BeginTx env s = (r0, s0)" by (cases "BeginTx env s")
  from BeginTx_cases[OF b] ok b have b0: "r0 = Inr TxHandle" "s0 = ?s0"
    by (auto simp: DeleteDomain_def)
  obtain s5 where t: "DeleteDomain_tx svc env filters TxHandle ?s0 = (Return None, s5)"
    and s5: "snd (DeleteDomain svc env filters s) = s5"
    using ok b b0
    by (cases "DeleteDomain_tx svc env filters TxHandle ?s0")
       (auto simp: DeleteDomain_def DeleteDomain_deferred_def split: result.splits)
  from DeleteDomain_tx_ok_queries[OF t] obtain domainID subDomains certsID where
    q: "DeleteDomain_id env filters TxHandle ?s0 = Inr domainID"
       "GetListOfSubDomains env domainID ?s0 = Inr subDomains"
       "GetCertificatesByDomain env domainID ?s0 = Inr certsID"
    by blast
  from DeleteDomain_tx_ok[OF t _ q] obtain s4 where
    f4: "files s4 = files s" and cl: "DeleteDomain_cleanup svc env (DomainName filters) s4 = (Return (), s5)"
    by auto
  have s5': "s5 = snd (DeleteCertificateFiles svc env [] s4)"
    using cl name
    by (auto simp: DeleteDomain_cleanup_def SelectClientByName_def split: list.splits)
  have d: "snd (DeleteCertificateFiles svc env [] s4)
             = (log_call (CallDeleteCertificateFiles []) s4)
                 \<lparr>files := filter (\<lambda>q. \<not> path_inside ?root q) (files s4)\<rparr>"
    using ex rm f4
    by (simp add: DeleteCertificateFiles_def j RemoveAll_def log_call_def Let_def
        del: filepath_Join.simps)
  have files: "files s5 = filter (\<lambda>q. \<not> path_inside ?root q) (files s)"
    and calls: "last (calls s5) = CallDeleteCertificateFiles []"
    using s5' d f4 by (simp_all add: log_call_def)
  show ?thesis
    using j name files calls s5 by auto
qed

theorem DeleteDomain_by_id_removes_storage_root_witness:
  "DomainName ex_delete_by_id = []
   \<and> fst (DeleteDomain ex_service ex_env ex_delete_by_id ex_state) = Return None
   \<and> StorageDir ex_service \<noteq> []
   \<and> filepath_Clean (StorageDir ex_service) \<in> set (files ex_state)
   \<and> fault ex_env (OpRemoveAll (filepath_Clean (StorageDir ex_service))) = None
   \<and> filepath_Clean (StorageDir ex_service) = ''certs''
   \<and> ''certs/acme_user.key'' \<in> set (files ex_state)
   \<and> ''certs/other.org/cert.pem'' \<in> set (files ex_state)
   \<and> last (calls (snd (DeleteDomain ex_service ex_env ex_delete_by_id ex_state)))
        = CallDeleteCertificateFiles []
   \<and> files (snd (DeleteDomain ex_service ex_env ex_delete_by_id ex_state)) = []"
proof -
  have h: "DomainName ex_delete_by_id = []"
    "fst (DeleteDomain ex_service ex_env ex_delete_by_id ex_state) = Return None"
    "StorageDir ex_service \<noteq> []"
    "filepath_Clean (StorageDir ex_service) \<in> set (files ex_state)"
    "fault ex_env (OpRemoveAll (filepath_Clean (StorageDir ex_service))) = None"
    by (simp_all add: delete_defs repo_defs fs_defs ex_defs Let_def)
  have c: "filepath_Clean (StorageDir ex_service) = ''certs''"
    by (simp add: fs_defs ex_defs Let_def)
  have f: "filter (\<lambda>q. \<not> path_inside ''certs'' q) (files ex_state) = []"
    "''certs/acme_user.key'' \<in> set (files ex_state)"
    "''certs/other.org/cert.pem'' \<in> set (files ex_state)"
    by (simp_all add: path_inside_def ex_state_def)
  from DeleteDomain_by_id_removes_storage_root [OF h] h c f
  show ?thesis by simp
qed

subsection \<open>Create\<close>

text \<open>
  Claim C7. When a live domain of the requested name exists, \<open>CreateDomain\<close> returns
  the error \<open>domain already exists\<close> and the state is the one it started from: no
  call to the certificate authority, no file written, no database write. After a
  create that succeeded, a second create for the same name (its existence query not
  failing) returns that error and changes nothing, and the committed database has
  exactly one live domain row of that name.
\<close>

theorem CreateDomain_already_exists:
  "(IsDomainExists env (Domain req) s = Inr True
      \<longrightarrow> CreateDomain svc env req s = (Return ([], Some (Msg ''domain already exists'')), s))
   \<and> (fst (CreateDomain svc env req s) = Return (domainID, None)
        \<and> fault env2 (OpIsDomainExists (Domain req)) = None \<and> Domain req2 = Domain req
      \<longrightarrow> CreateDomain svc2 env2 req2 (snd (CreateDomain svc env req s))
            = (Return ([], Some (Msg ''domain already exists'')), snd (CreateDomain svc env req s))
          \<and> length (filter (live_domain (Domain req)) (committed (snd (CreateDomain svc env req s)))) = 1)"
proof -
  have first: "CreateDomain svc env req s = (Return ([], Some (Msg ''domain already exists'')), s)"
    if "IsDomainExists env (Domain req) s = Inr True"
    using that by (simp add: CreateDomain_def)
  let ?s' = "snd (CreateDomain svc env req s)"
  have second: "CreateDomain svc2 env2 req2 ?s'
            = (Return ([], Some (Msg ''domain already exists'')), ?s')
          \<and> length (filter (live_domain (Domain req)) (committed ?s')) = 1"
    if a: "fst (CreateDomain svc env req s) = Return (domainID, None)
        \<and> fault env2 (OpIsDomainExists (Domain req)) = None \<and> Domain req2 = Domain req"
  proof -
    from CreateDomain_ok_count[of svc env req s domainID] a
    have ne: "IsDomainExists env (Domain req) s = Inr False"
      and cnt: "length (filter (live_domain (Domain req)) (committed ?s'))
               = Suc (length (filter (live_domain (Domain req)) (committed s)))"
      by simp_all
    from ne have "\<not> list_ex (live_domain (Domain req)) (committed s)"
      by (simp add: IsDomainExists_def split: option.splits)
    then have "filter (live_domain (Domain req)) (committed s) = []"
      by (simp add: list_ex_iff filter_empty_conv)
    with cnt have one: "length (filter (live_domain (Domain req)) (committed ?s')) = 1" by simp
    then have "filter (live_domain (Domain req)) (committed ?s') \<noteq> []" by auto
    then have "list_ex (live_domain (Domain req)) (committed ?s')"
      by (simp add: list_ex_iff filter_empty_conv)
    with a have "IsDomainExists env2 (Domain req2) ?s' = Inr True"
      by (simp add: IsDomainExists_def)
    then have "CreateDomain svc2 env2 req2 ?s' = (Return ([], Some (Msg ''domain already exists'')), ?s')"
      by (simp add: CreateDomain_def)
    with one show ?thesis by simp
  qed
  show ?thesis using first second by blast
qed

theorem CreateDomain_already_exists_witness:
  "fst (CreateDomain ex_service ex_env ex_create ex_state) = Return (''nnnnn'', None)
   \<and> fault ex_env (OpIsDomainExists (Domain ex_create)) = None
   \<and> CreateDomain ex_service ex_env ex_create (snd (CreateDomain ex_service ex_env ex_create ex_state))
       = (Return ([], Some (Msg ''domain already exists'')),
          snd (CreateDomain ex_service ex_env ex_create ex_state))
   \<and> length (filter (live_domain (Domain ex_create))
                (committed (snd (CreateDomain ex_service ex_env ex_create ex_state)))) = 1
   \<and> IsDomainExists ex_env (Domain (ex_create\<lparr>Domain := ''example.com''\<rparr>)) ex_state = Inr True
   \<and> CreateDomain ex_service ex_env (ex_create\<lparr>Domain := ''example.com''\<rparr>) ex_state
       = (Return ([], Some (Msg ''domain already exists'')), ex_state)"
proof -
  have h: "fst (CreateDomain ex_service ex_env ex_create ex_state) = Return (''nnnnn'', None)"
    by (simp add: create_defs repo_defs fs_defs ex_defs Let_def)
  have f: "fault ex_env (OpIsDomainExists (Domain ex_create)) = None"
    by (simp add: ex_env_def)
  have e: "IsDomainExists ex_env (Domain (ex_create\<lparr>Domain := ''example.com''\<rparr>)) ex_state = Inr True"
    by (simp add: repo_defs ex_defs)
  from CreateDomain_already_exists [of ex_env ex_create ex_state ex_service "''nnnnn''"
      ex_env ex_create ex_service]
    CreateDomain_already_exists [of ex_env "ex_create\<lparr>Domain := ''example.com''\<rparr>" ex_state
      ex_service]
    h f e
  show ?thesis by blast
qed

text \<open>
  Claim C6. When no live domain of the name exists, the provider resolves and the
  certificate authority refuses, \<open>CreateDomain\<close> returns the error
  \<open>certificate creation failed\<close> wrapping the authority's error. It has made one call
  to the authority and one insert, that of an event of type \<open>failed\<close> with an empty
  domain id, outside any transaction; the committed database is the one before with
  that event row appended, or unchanged when the insert of the event fails (the result
  is the same either way). No file is written and the rows of the tables \<open>domains\<close>,
  \<open>certificates\<close> and \<open>alternative_domains\<close> are as before.
\<close>

theorem CreateDomain_issuance_failure:
  assumes ne: "IsDomainExists env (Domain req) s = Inr False"
    and sel: "SelectClientByName svc (DNSProvider req) = Return (Inr c)"
    and iss: "acme env (Name c) (Domain req) (AltDomains req) = Inl e"
  shows "fst (CreateDomain svc env req s)
           = Return ([], Some (Wrap ''certificate creation failed'' (Some e)))
       \<and> files (snd (CreateDomain svc env req s)) = files s
       \<and> pending (snd (CreateDomain svc env req s)) = pending s
       \<and> (\<exists>ev. EntityName ev = ''events''
              \<and> StringParameters ev ''domain_id'' = Some []
              \<and> StringParameters ev ''event_type'' = Some ''failed''
              \<and> calls (snd (CreateDomain svc env req s))
                  = calls s @ [CallCreateCertificate (Name c) (Domain req) (AltDomains req),
                               CallInsertTx ev]
              \<and> committed (snd (CreateDomain svc env req s))
                  = (if fault env (OpInsertTx ev) = None
                     then committed s @ [(new_id env (committed s) ev, ev)]
                     else committed s))
       \<and> rows_of ''domains'' (committed (snd (CreateDomain svc env req s)))
           = rows_of ''domains'' (committed s)
       \<and> rows_of ''certificates'' (committed (snd (CreateDomain svc env req s)))
           = rows_of ''certificates'' (committed s)
       \<and> rows_of ''alternative_domains'' (committed (snd (CreateDomain svc env req s)))
           = rows_of ''alternative_domains'' (committed s)"
proof -
  let ?ev = "NewEntity ''events''
            [(''domain_id'', AString []), (''event_type'', AString ''failed''),
             (''message'', AString (''Certificate creation failed: '' @ error_text e)),
             (''created_by'', AString (CreatedBy req))]"
  let ?s1 = "log_call (CallCreateCertificate (Name c) (Domain req) (AltDomains req)) s"
  have r: "CreateDomain svc env req s
             = (Return ([], Some (Wrap ''certificate creation failed'' (Some e))),
                snd (InsertTx env None ?ev ?s1))"
    using ne sel iss
    by (simp add: CreateDomain_def CreateCertificate_def safeWriteEvent_def writeEvent_def Let_def
        split: prod.splits sum.splits)
  have i: "snd (InsertTx env None ?ev ?s1)
             = (if fault env (OpInsertTx ?ev) = None
                then (log_call (CallInsertTx ?ev) ?s1)
                       \<lparr>committed := committed s @ [(new_id env (committed s) ?ev, ?ev)]\<rparr>
                else log_call (CallInsertTx ?ev) ?s1)"
    by (simp add: InsertTx_def log_call_def Let_def split: option.splits)
  have ev: "EntityName ?ev = ''events''" "StringParameters ?ev ''domain_id'' = Some []"
    "StringParameters ?ev ''event_type'' = Some ''failed''"
    by (simp_all add: NewEntity_def)
  have c: "calls (snd (InsertTx env None ?ev ?s1))
             = calls s @ [CallCreateCertificate (Name c) (Domain req) (AltDomains req), CallInsertTx ?ev]"
    "committed (snd (InsertTx env None ?ev ?s1))
             = (if fault env (OpInsertTx ?ev) = None
                     then committed s @ [(new_id env (committed s) ?ev, ?ev)]
                     else committed s)"
    "files (snd (InsertTx env None ?ev ?s1)) = files s"
    "pending (snd (InsertTx env None ?ev ?s1)) = pending s"
    unfolding i by (simp_all add: log_call_def)
  have rows: "rows_of t (committed (snd (InsertTx env None ?ev ?s1))) = rows_of t (committed s)"
    if "t \<noteq> ''events''" for t
    unfolding c(2) using that by (simp add: rows_of_def)
  show ?thesis
    unfolding r using ev c rows by auto
qed

theorem CreateDomain_issuance_failure_witness:
  "IsDomainExists ex_env_no_issue (Domain ex_create) ex_state = Inr False
   \<and> SelectClientByName ex_service (DNSProvider ex_create)
       = Return (Inr \<lparr>Name = ''hetzner'', URL = ''https://dns.hetzner.com'', Key = ''k2''\<rparr>)
   \<and> acme ex_env_no_issue ''hetzner'' (Domain ex_create) (AltDomains ex_create)
       = Inl (Msg ''acme: rate limited'')
   \<and> fst (CreateDomain ex_service ex_env_no_issue ex_create ex_state)
       = Return ([], Some (Wrap ''certificate creation failed'' (Some (Msg ''acme: rate limited''))))
   \<and> files (snd (CreateDomain ex_service ex_env_no_issue ex_create ex_state)) = files ex_state
   \<and> rows_of ''domains'' (committed (snd (CreateDomain ex_service ex_env_no_issue ex_create ex_state)))
       = rows_of ''domains'' (committed ex_state)
   \<and> map fst (committed (snd (CreateDomain ex_service ex_env_no_issue ex_create ex_state)))
       = [''d1'', ''a1'', ''c1'', ''d2'', ''nnnnn'']"
proof -
  have h1: "IsDomainExists ex_env_no_issue (Domain ex_create) ex_state = Inr False"
    by (simp add: repo_defs ex_defs)
  have h2: "SelectClientByName ex_service (DNSProvider ex_create)
       = Return (Inr \<lparr>Name = ''hetzner'', URL = ''https://dns.hetzner.com'', Key = ''k2''\<rparr>)"
    by (simp add: SelectClientByName_def ex_defs)
  have h3: "acme ex_env_no_issue
              (Name \<lparr>Name = ''hetzner'', URL = ''https://dns.hetzner.com'', Key = ''k2''\<rparr>)
              (Domain ex_create) (AltDomains ex_create) = Inl (Msg ''acme: rate limited'')"
    by (simp add: ex_defs)
  have ids: "map fst (committed (snd (CreateDomain ex_service ex_env_no_issue ex_create ex_state)))
       = [''d1'', ''a1'', ''c1'', ''d2'', ''nnnnn'']"
    by (simp add: create_defs repo_defs ex_defs Let_def)
  from CreateDomain_issuance_failure [OF h1 h2 h3] h1 h2 h3 ids
  show ?thesis by simp
qed

end
